theory Spec2Isabelle
  imports Complex_Main "HOL-Library.Word"
begin

section \<open>JavaScript values\<close>

text \<open>
  A JavaScript string is the list of its UTF-16 code units. String literals of the
  source are ASCII and are written \<open>lit ''...''\<close>.
\<close>

type_synonym jsstring = "16 word list"

definition lit :: "string \<Rightarrow> jsstring" where
  "lit s = map (\<lambda>c. word_of_nat (of_char c)) s"

text \<open>
  Numbers are IEEE doubles. Only three things are ever asked of a number here: whether it
  is finite, whether it is zero or NaN (truthiness), and how it compares with small
  integers. A finite double is kept as the rational it denotes (the two zeros coincide,
  which none of these questions tells apart).
\<close>

datatype jsnum = NaN | PosInfinity | NegInfinity | Finite rat

text \<open>
  The data that reaches the handlers from outside (a parsed JSON request body, the value
  the image provider resolves to) and the objects handed to \<open>res.json\<close> are JSON-shaped
  values. An object is the list of its properties; the first binding of a key counts.
\<close>

datatype jsval =
    JUndefined
  | JNull
  | JBool bool
  | JNum jsnum
  | JStr jsstring
  | JArr "jsval list"
  | JObj "(jsstring \<times> jsval) list"

text \<open>ToBoolean: what \<open>!v\<close>, \<open>if (v)\<close> and \<open>v || w\<close> test.\<close>

fun truthy :: "jsval \<Rightarrow> bool" where
  "truthy JUndefined = False"
| "truthy JNull = False"
| "truthy (JBool b) = b"
| "truthy (JNum n) = (n \<noteq> NaN \<and> n \<noteq> Finite 0)"
| "truthy (JStr s) = (s \<noteq> [])"
| "truthy (JArr xs) = True"
| "truthy (JObj kvs) = True"

text \<open>\<open>a || b\<close> yields \<open>a\<close> when it is truthy and \<open>b\<close> otherwise.\<close>

definition js_or :: "jsval \<Rightarrow> jsval \<Rightarrow> jsval" where
  "js_or a b = (if truthy a then a else b)"

fun typeof :: "jsval \<Rightarrow> jsstring" where
  "typeof JUndefined = lit ''undefined''"
| "typeof JNull = lit ''object''"
| "typeof (JBool b) = lit ''boolean''"
| "typeof (JNum n) = lit ''number''"
| "typeof (JStr s) = lit ''string''"
| "typeof (JArr xs) = lit ''object''"
| "typeof (JObj kvs) = lit ''object''"

fun isArray :: "jsval \<Rightarrow> bool" where
  "isArray (JArr xs) = True"
| "isArray v = False"

text \<open>
  Reading a property of a value other than \<open>undefined\<close> and \<open>null\<close>. The handlers read
  only \<open>prompt\<close>, \<open>error\<close>, \<open>output\<close>, \<open>message\<close>, \<open>url\<close>, \<open>image\<close> and \<open>data\<close>; none of
  them is a built-in property of a string, number, boolean or array, so such a read gives
  \<open>undefined\<close> on everything but an object that has the key.
\<close>

fun getProp :: "jsval \<Rightarrow> jsstring \<Rightarrow> jsval" where
  "getProp (JObj kvs) k = (case map_of kvs k of Some v \<Rightarrow> v | None \<Rightarrow> JUndefined)"
| "getProp v k = JUndefined"

text \<open>\<open>output[0]\<close> on an array: the element, or \<open>undefined\<close> past the end.\<close>

fun element :: "jsval \<Rightarrow> nat \<Rightarrow> jsval" where
  "element (JArr xs) i = (if i < length xs then xs ! i else JUndefined)"
| "element v i = JUndefined"

subsection \<open>Exceptions\<close>

text \<open>
  What a \<open>try\<close> block can catch: a \<open>TypeError\<close> raised by the language itself, or an
  \<open>Error\<close> thrown (or a promise rejected) by one of the two libraries. Either is an
  error object with a \<open>message\<close> string. The wording of a \<open>TypeError\<close> is the engine's
  (here V8's); nothing proved below depends on it.
\<close>

datatype js_error = TypeError jsstring | LibraryError jsstring

fun message :: "js_error \<Rightarrow> jsstring" where
  "message (TypeError m) = m"
| "message (LibraryError m) = m"

text \<open>
  \<open>const { k } = v\<close>: a \<open>TypeError\<close> when \<open>v\<close> is \<open>undefined\<close> or \<open>null\<close>, the property
  otherwise. \<open>src\<close> is the source text of \<open>v\<close>, which the message quotes.
\<close>

definition destructure :: "string \<Rightarrow> jsval \<Rightarrow> string \<Rightarrow> js_error + jsval" where
  "destructure src v k =
     (if v = JUndefined then
        Inl (TypeError (lit (''Cannot destructure property '' @ [CHR 0x27] @ k @ [CHR 0x27] @ '' of ''
                              @ [CHR 0x27] @ src @ [CHR 0x27] @ '' as it is undefined.'')))
      else if v = JNull then
        Inl (TypeError (lit (''Cannot destructure property '' @ [CHR 0x27] @ k @ [CHR 0x27] @ '' of ''
                              @ [CHR 0x27] @ src @ [CHR 0x27] @ '' as it is null.'')))
      else Inr (getProp v (lit k)))"

subsection \<open>String methods\<close>

text \<open>
  White space and line terminators of ECMAScript: what \<open>String.prototype.trim\<close> strips
  and \<open>parseInt\<close> skips.
\<close>

definition isWhiteSpace :: "16 word \<Rightarrow> bool" where
  "isWhiteSpace c \<longleftrightarrow>
     c \<in> set [0x0009, 0x000A, 0x000B, 0x000C, 0x000D, 0x0020, 0x00A0, 0x1680,
               0x2000, 0x2001, 0x2002, 0x2003, 0x2004, 0x2005, 0x2006, 0x2007,
               0x2008, 0x2009, 0x200A, 0x2028, 0x2029, 0x202F, 0x205F, 0x3000, 0xFEFF]"

definition trimStart :: "jsstring \<Rightarrow> jsstring" where
  "trimStart s = dropWhile isWhiteSpace s"

definition trim :: "jsstring \<Rightarrow> jsstring" where
  "trim s = rev (trimStart (rev (trimStart s)))"

text \<open>
  \<open>prompt.trim()\<close> on a truthy value: a string is trimmed; on anything else \<open>trim\<close> is
  not a function (a JSON value never is one, also when an object has a \<open>trim\<close> key) and
  the call raises.
\<close>

fun call_trim :: "string \<Rightarrow> jsval \<Rightarrow> js_error + jsstring" where
  "call_trim src (JStr s) = Inr (trim s)"
| "call_trim src v = Inl (TypeError (lit (src @ ''.trim is not a function'')))"

text \<open>
  \<open>toLowerCase\<close> on the letters A to Z. The source compares the result with
  \<open>'original'\<close> only, and a string with a code unit outside ASCII never lower-cases to
  that word (the only such code points with an ASCII letter in their lower case are the
  Kelvin sign, which gives \<open>k\<close>, and dotted capital I, which gives \<open>i\<close> followed by a
  combining dot), so the comparison comes out as it does in JavaScript.
\<close>

definition toLowerCase :: "jsstring \<Rightarrow> jsstring" where
  "toLowerCase s = map (\<lambda>c. if 0x41 \<le> c \<and> c \<le> 0x5A then c + 0x20 else c) s"

text \<open>\<open>s.includes(sub)\<close>: \<open>sub\<close> occurs in \<open>s\<close> as a contiguous run of code units.\<close>

fun includes_str :: "jsstring \<Rightarrow> jsstring \<Rightarrow> bool" where
  "includes_str [] sub = (sub = [])"
| "includes_str (c # cs) sub = (take (length sub) (c # cs) = sub \<or> includes_str cs sub)"

subsection \<open>Numbers\<close>

text \<open>
  The double nearest to an integer (ties to even), and an infinity from
  \<open>2^1024 - 2^970\<close> on. Below \<open>2^53\<close> every integer is a double.
\<close>

function bit_length :: "int \<Rightarrow> nat" where
  "bit_length n = (if n \<le> 0 then 0 else Suc (bit_length (n div 2)))"
  by pat_completeness auto
termination
  by (relation "measure nat") auto

definition toNumber :: "int \<Rightarrow> jsnum" where
  "toNumber n =
     (let a = \<bar>n\<bar> in
      if a < 2 ^ 53 then Finite (of_int n)
      else
        let e = bit_length a - 53;
            q = a div 2 ^ e;
            r = a mod 2 ^ e;
            h = 2 ^ (e - 1);
            q' = (if h < r \<or> (r = h \<and> odd q) then q + 1 else q);
            m = q' * 2 ^ e
        in if 2 ^ 1024 \<le> m then (if n < 0 then NegInfinity else PosInfinity)
           else Finite (of_int (sgn n * m)))"

definition isDigit :: "16 word \<Rightarrow> bool" where
  "isDigit c \<longleftrightarrow> 0x30 \<le> c \<and> c \<le> 0x39"

definition digits_value :: "jsstring \<Rightarrow> int" where
  "digits_value ds = foldl (\<lambda>a d. 10 * a + (uint d - 48)) 0 ds"

text \<open>
  \<open>parseInt(s, 10)\<close> on a string: leading white space is skipped, one sign is read, then
  the longest run of decimal digits; no digit gives NaN. (ECMAScript lets an engine
  round a run of more than 20 digits less exactly than \<open>toNumber\<close> does; V8 rounds
  correctly.)
\<close>

definition parseInt :: "jsstring \<Rightarrow> jsnum" where
  "parseInt inputString =
     (let S = trimStart inputString;
          negative = (S \<noteq> [] \<and> hd S = 0x2D);
          S' = (if S \<noteq> [] \<and> (hd S = 0x2B \<or> hd S = 0x2D) then tl S else S);
          Z = takeWhile isDigit S'
      in if Z = [] then NaN
         else toNumber ((if negative then - 1 else 1) * digits_value Z))"

subsection \<open>Buffers\<close>

type_synonym buffer = "8 word list"

definition base64_alphabet :: string where
  "base64_alphabet = ''ABCDEFGHIJKLMNOPQRSTUVWXYZabcdefghijklmnopqrstuvwxyz0123456789+/''"

definition base64_char :: "nat \<Rightarrow> char" where
  "base64_char i = base64_alphabet ! (i mod 64)"

text \<open>\<open>buffer.toString('base64')\<close>: three bytes give four characters, with \<open>=\<close> padding.\<close>

fun base64 :: "buffer \<Rightarrow> string" where
  "base64 [] = []"
| "base64 [a] =
     (let n = unat a * 65536
      in [base64_char (n div 262144), base64_char (n div 4096), CHR ''='', CHR ''=''])"
| "base64 [a, b] =
     (let n = unat a * 65536 + unat b * 256
      in [base64_char (n div 262144), base64_char (n div 4096), base64_char (n div 64), CHR ''=''])"
| "base64 (a # b # c # rest) =
     (let n = unat a * 65536 + unat b * 256 + unat c
      in [base64_char (n div 262144), base64_char (n div 4096), base64_char (n div 64), base64_char n]
         @ base64 rest)"

section \<open>Requests, responses and the surroundings of the server\<close>

text \<open>
  A response is the status code and the object handed to \<open>res.json\<close>; without
  \<open>res.status\<close> the code is 200.
\<close>

record response =
  status :: nat
  body :: jsval

definition res_json :: "nat \<Rightarrow> (string \<times> jsval) list \<Rightarrow> response" where
  "res_json code props = \<lparr>status = code, body = JObj (map (\<lambda>(k, v). (lit k, v)) props)\<rparr>"

text \<open>
  \<open>req.file\<close> as multer's memory storage leaves it, and \<open>req.body\<close> of a multipart
  request (\<open>req_fields\<close>): the text fields of the form, each a string (fields that
  multer nests into arrays or objects are outside this model).
\<close>

record upload =
  buffer :: buffer
  mimetype :: "jsstring option"
  file_size :: nat

type_synonym form_body = "jsstring \<rightharpoonup> jsstring"

record compress_request =
  req_file :: "upload option"
  req_fields :: form_body

text \<open>
  The chain of sharp calls. \<open>sharp(buffer, { failOnError })\<close>, \<open>.rotate()\<close> and
  \<open>.resize({ width, fit, withoutEnlargement })\<close> fill the first fields, the encoder call
  the last one.
\<close>

datatype encoder =
    Jpeg rat bool  \<comment> \<open>quality, mozjpeg\<close>
  | Png nat bool  \<comment> \<open>compressionLevel, adaptiveFiltering\<close>
  | Webp rat  \<comment> \<open>quality\<close>

record sharp_pipeline =
  input :: buffer
  failOnError :: bool
  autoRotate :: bool
  resize_width :: rat
  resize_fit :: jsstring
  withoutEnlargement :: bool
  output_format :: "encoder option"

text \<open>
  One use of the Bytez SDK: \<open>new Bytez(apiKey)\<close>, \<open>sdk.model(modelId)\<close>,
  \<open>model.run(...run_args)\<close>.
\<close>

record provider_call =
  apiKey :: jsval
  modelId :: jsstring
  run_args :: "jsval list"

text \<open>
  What the handlers depend on without owning it: the environment variable, and the two
  libraries. A library either throws (or rejects), or returns: the provider the value
  its promise resolves to, the codec the bytes of \<open>toBuffer()\<close>.
\<close>

record world =
  BYTEZ_API_KEY :: "jsstring option"
  bytez :: "provider_call \<Rightarrow> js_error + jsval"
  sharp :: "sharp_pipeline \<Rightarrow> js_error + buffer"

text \<open>
  What the process leaves behind while it serves requests: the lines written by
  \<open>console.error\<close>, and the calls made to the provider. The source declares no
  variable that a handler assigns, so nothing else is carried from one request to the
  next.
\<close>

datatype logged = LoggedValue jsval | LoggedError js_error

record process_state =
  console :: "(jsstring \<times> logged) list"
  provider_calls :: "provider_call list"

definition console_error :: "string \<Rightarrow> logged \<Rightarrow> process_state \<Rightarrow> process_state" where
  "console_error label x s = s\<lparr>console := console s @ [(lit label, x)]\<rparr>"

section \<open>POST /api/compress-image (src/index.js, lines 46 to 115)\<close>

text \<open>
  ToString of \<open>req.body?.quality\<close>: an absent field reads \<open>undefined\<close>. Below,
  \<open>Number.isFinite(n) ? ... : ...\<close> is the case distinction on \<open>n\<close> being \<open>Finite\<close>.
\<close>

definition field_toString :: "jsstring option \<Rightarrow> jsstring" where
  "field_toString f = (case f of None \<Rightarrow> lit ''undefined'' | Some s \<Rightarrow> s)"

text \<open>\<open>f || d\<close> for a field: the default also replaces the empty string.\<close>

definition field_or :: "jsstring option \<Rightarrow> jsstring \<Rightarrow> jsstring" where
  "field_or f d = (case f of None \<Rightarrow> d | Some s \<Rightarrow> if s = [] then d else s)"

text \<open>The body of the \<open>try\<close> block: an exception, or the response.\<close>

definition compress_image_try :: "world \<Rightarrow> compress_request \<Rightarrow> js_error + response" where
  "compress_image_try w req =
     (case req_file req of
        None \<Rightarrow> Inr (res_json 400 [(''error'', JStr (lit ''Image file is required''))])
      | Some file \<Rightarrow>
          let qualityInput = parseInt (field_toString (req_fields req (lit ''quality'')));
              widthInput = parseInt (field_toString (req_fields req (lit ''width'')));
              formatInput = toLowerCase (field_or (req_fields req (lit ''format'')) (lit ''webp''));
              quality = (case qualityInput of Finite q \<Rightarrow> min (max q 1) 100 | _ \<Rightarrow> 80);
              targetWidth = (case widthInput of Finite x \<Rightarrow> if 0 < x then x else 1600 | _ \<Rightarrow> 1600);
              image = \<lparr>input = buffer file, failOnError = False, autoRotate = True,
                       resize_width = targetWidth, resize_fit = lit ''inside'',
                       withoutEnlargement = True, output_format = None\<rparr>;
              inputMime = field_or (mimetype file) [];
              (image, mimeType) =
                (if formatInput = lit ''original'' then
                   if includes_str inputMime (lit ''jpeg'') \<or> includes_str inputMime (lit ''jpg'') then
                     (image\<lparr>output_format := Some (Jpeg quality True)\<rparr>, lit ''image/jpeg'')
                   else if includes_str inputMime (lit ''png'') then
                     (image\<lparr>output_format := Some (Png 9 True)\<rparr>, lit ''image/png'')
                   else
                     (image\<lparr>output_format := Some (Webp quality)\<rparr>, lit ''image/webp'')
                 else
                   (image\<lparr>output_format := Some (Webp quality)\<rparr>, lit ''image/webp''))
          in case sharp w image of
               Inl e \<Rightarrow> Inl e
             | Inr compressedBuffer \<Rightarrow>
                 let dataUrl = lit ''data:'' @ mimeType @ lit '';base64,'' @ lit (base64 compressedBuffer)
                 in Inr (res_json 200
                      [(''success'', JBool True),
                       (''mimeType'', JStr mimeType),
                       (''dataUrl'', JStr dataUrl),
                       (''originalSize'', JNum (Finite (of_nat (file_size file)))),
                       (''compressedSize'', JNum (Finite (of_nat (length compressedBuffer)))),
                       (''quality'', JNum (Finite quality)),
                       (''width'', JNum (Finite targetWidth))]))"

text \<open>The handler: the \<open>catch\<close> block logs the exception and answers 500.\<close>

definition compress_image :: "world \<Rightarrow> compress_request \<Rightarrow> process_state \<Rightarrow> response \<times> process_state" where
  "compress_image w req s =
     (case compress_image_try w req of
        Inr r \<Rightarrow> (r, s)
      | Inl e \<Rightarrow>
          (res_json 500
             [(''error'', JStr (lit ''Failed to compress image. Please try again with a different file.''))],
           console_error ''Image compression error:'' (LoggedError e) s))"

section \<open>POST /api/generate-image (src/index.js, lines 118 to 184)\<close>

text \<open>The extraction of the image URL from a truthy \<open>output\<close> (lines 157 to 165).\<close>

definition extract_imageUrl :: "jsval \<Rightarrow> jsval" where
  "extract_imageUrl output =
     (if isArray output then element output 0
      else if typeof output = lit ''string'' then output
      else if truthy output \<and> typeof output = lit ''object'' then
        js_or (js_or (getProp output (lit ''url'')) (getProp output (lit ''image'')))
              (getProp output (lit ''data''))
      else JNull)"

text \<open>
  From the destructuring of what \<open>model.run\<close> resolved to down to the response
  (lines 142 to 176): an exception or the response, and the state of the process.
\<close>

definition relay_result ::
  "jsval \<Rightarrow> process_state \<Rightarrow> (js_error + response) \<times> process_state" where
  "relay_result result s =
     (case destructure ''(intermediate value)'' result ''error'' of
        Inl e \<Rightarrow> (Inl e, s)
      | Inr error \<Rightarrow>
          let output = getProp result (lit ''output'') in
          if truthy error then
            (Inr (res_json 500
               [(''error'', js_or (getProp error (lit ''message''))
                                  (JStr (lit ''Failed to generate image'')))]),
             console_error ''Image generation error:'' (LoggedValue error) s)
          else if \<not> truthy output then
            (Inr (res_json 500 [(''error'', JStr (lit ''No output received from the API''))]), s)
          else
            let imageUrl = extract_imageUrl output in
            if \<not> truthy imageUrl then
              (Inr (res_json 500
                 [(''error'', JStr (lit ''Could not extract image URL from response''))]), s)
            else
              (Inr (res_json 200 [(''success'', JBool True), (''imageUrl'', imageUrl)]), s))"

text \<open>
  The body of the \<open>try\<close> block (lines 118 to 142 for the checks and the call): an exception
  or the response, and the state of the process when the block is left.
\<close>

definition generate_image_try ::
  "world \<Rightarrow> jsval \<Rightarrow> process_state \<Rightarrow> (js_error + response) \<times> process_state" where
  "generate_image_try w req_body s =
     (case destructure ''req.body'' req_body ''prompt'' of
        Inl e \<Rightarrow> (Inl e, s)
      | Inr prompt \<Rightarrow>
          if \<not> truthy prompt then
            (Inr (res_json 400 [(''error'', JStr (lit ''Prompt is required''))]), s)
          else
            (case call_trim ''prompt'' prompt of
               Inl e \<Rightarrow> (Inl e, s)
             | Inr trimmed \<Rightarrow>
                 if \<not> truthy (JStr trimmed) then
                   (Inr (res_json 400 [(''error'', JStr (lit ''Prompt is required''))]), s)
                 else
                   let bytezKey = (case BYTEZ_API_KEY w of None \<Rightarrow> JUndefined | Some k \<Rightarrow> JStr k) in
                   if \<not> truthy bytezKey then
                     (Inr (res_json 500 [(''error'', JStr (lit ''Bytez API key is not configured''))]), s)
                   else
                     let call = \<lparr>apiKey = bytezKey,
                                 modelId = lit ''stabilityai/stable-diffusion-xl-base-1.0'',
                                 run_args = [JStr trimmed]\<rparr>;
                         s1 = s\<lparr>provider_calls := provider_calls s @ [call]\<rparr>
                     in (case bytez w call of
                           Inl e \<Rightarrow> (Inl e, s1)
                         | Inr result \<Rightarrow> relay_result result s1)))"

text \<open>
  The handler: the \<open>catch\<close> block logs the exception and answers 500 with its message,
  or with a fixed text when the message is empty.
\<close>

definition generate_image :: "world \<Rightarrow> jsval \<Rightarrow> process_state \<Rightarrow> response \<times> process_state" where
  "generate_image w req_body s =
     (case generate_image_try w req_body s of
        (Inr r, s') \<Rightarrow> (r, s')
      | (Inl e, s') \<Rightarrow>
          (res_json 500
             [(''error'', js_or (JStr (message e)) (JStr (lit ''Internal server error'')))],
           console_error ''Server error:'' (LoggedError e) s'))"

section \<open>POST /api/generate-image (src/unnamed/part_000, lines 28 to 94)\<close>

text \<open>The extraction of the image URL from a truthy \<open>output\<close> (lines 67 to 75).\<close>

definition extract_imageUrl_part_000 :: "jsval \<Rightarrow> jsval" where
  "extract_imageUrl_part_000 output =
     (if isArray output then element output 0
      else if typeof output = lit ''string'' then output
      else if truthy output \<and> typeof output = lit ''object'' then
        js_or (js_or (getProp output (lit ''url'')) (getProp output (lit ''image'')))
              (getProp output (lit ''data''))
      else JNull)"

text \<open>
  From the destructuring of what \<open>model.run\<close> resolved to down to the response
  (lines 52 to 86): an exception or the response, and the state of the process.
\<close>

definition relay_result_part_000 ::
  "jsval \<Rightarrow> process_state \<Rightarrow> (js_error + response) \<times> process_state" where
  "relay_result_part_000 result s =
     (case destructure ''(intermediate value)'' result ''error'' of
        Inl e \<Rightarrow> (Inl e, s)
      | Inr error \<Rightarrow>
          let output = getProp result (lit ''output'') in
          if truthy error then
            (Inr (res_json 500
               [(''error'', js_or (getProp error (lit ''message''))
                                  (JStr (lit ''Failed to generate image'')))]),
             console_error ''Image generation error:'' (LoggedValue error) s)
          else if \<not> truthy output then
            (Inr (res_json 500 [(''error'', JStr (lit ''No output received from the API''))]), s)
          else
            let imageUrl = extract_imageUrl_part_000 output in
            if \<not> truthy imageUrl then
              (Inr (res_json 500
                 [(''error'', JStr (lit ''Could not extract image URL from response''))]), s)
            else
              (Inr (res_json 200 [(''success'', JBool True), (''imageUrl'', imageUrl)]), s))"

text \<open>
  The body of the \<open>try\<close> block (lines 28 to 52 for the checks and the call): an exception
  or the response, and the state of the process when the block is left.
\<close>

definition generate_image_try_part_000 ::
  "world \<Rightarrow> jsval \<Rightarrow> process_state \<Rightarrow> (js_error + response) \<times> process_state" where
  "generate_image_try_part_000 w req_body s =
     (case destructure ''req.body'' req_body ''prompt'' of
        Inl e \<Rightarrow> (Inl e, s)
      | Inr prompt \<Rightarrow>
          if \<not> truthy prompt then
            (Inr (res_json 400 [(''error'', JStr (lit ''Prompt is required''))]), s)
          else
            (case call_trim ''prompt'' prompt of
               Inl e \<Rightarrow> (Inl e, s)
             | Inr trimmed \<Rightarrow>
                 if \<not> truthy (JStr trimmed) then
                   (Inr (res_json 400 [(''error'', JStr (lit ''Prompt is required''))]), s)
                 else
                   let bytezKey = (case BYTEZ_API_KEY w of None \<Rightarrow> JUndefined | Some k \<Rightarrow> JStr k) in
                   if \<not> truthy bytezKey then
                     (Inr (res_json 500 [(''error'', JStr (lit ''Bytez API key is not configured''))]), s)
                   else
                     let call = \<lparr>apiKey = bytezKey,
                                 modelId = lit ''stabilityai/stable-diffusion-xl-base-1.0'',
                                 run_args = [JStr trimmed]\<rparr>;
                         s1 = s\<lparr>provider_calls := provider_calls s @ [call]\<rparr>
                     in (case bytez w call of
                           Inl e \<Rightarrow> (Inl e, s1)
                         | Inr result \<Rightarrow> relay_result_part_000 result s1)))"

text \<open>
  The handler: the \<open>catch\<close> block logs the exception and answers 500 with its message,
  or with a fixed text when the message is empty.
\<close>

definition generate_image_part_000 :: "world \<Rightarrow> jsval \<Rightarrow> process_state \<Rightarrow> response \<times> process_state" where
  "generate_image_part_000 w req_body s =
     (case generate_image_try_part_000 w req_body s of
        (Inr r, s') \<Rightarrow> (r, s')
      | (Inl e, s') \<Rightarrow>
          (res_json 500
             [(''error'', js_or (JStr (message e)) (JStr (lit ''Internal server error'')))],
           console_error ''Server error:'' (LoggedError e) s'))"

section \<open>The routes (src/index.js)\<close>

text \<open>GET /api/health (lines 41 to 43).\<close>

definition health :: response where
  "health = res_json 200 [(''status'', JStr (lit ''OK'')), (''message'', JStr (lit ''Server is running''))]"

datatype http_method = GET | POST | OPTIONS

datatype operation = CorsPreflight | Health | CompressImage | GenerateImage

text \<open>
  The registrations, in the order of the source: \<open>app.options\<close> (line 37), \<open>app.get\<close>
  (line 41) and the two \<open>app.post\<close> (lines 46 and 118), each with the path it is given.
\<close>

definition routes :: "(http_method \<times> string \<times> operation) list" where
  "routes =
     [(OPTIONS, ''*'', CorsPreflight),
      (GET, ''/api/health'', Health),
      (POST, ''/api/compress-image'', CompressImage),
      (POST, ''/api/generate-image'', GenerateImage)]"

definition registered :: "http_method \<Rightarrow> string \<Rightarrow> operation option" where
  "registered m path = map_of (map (\<lambda>(m, p, h). ((m, p), h)) routes) (m, path)"

text \<open>
  A request as its handler sees it, and the server as a step on the state of the process.
\<close>

datatype request =
    GetHealth
  | PostCompressImage compress_request
  | PostGenerateImage jsval

fun serve :: "world \<Rightarrow> request \<Rightarrow> process_state \<Rightarrow> response \<times> process_state" where
  "serve w GetHealth s = (health, s)"
| "serve w (PostCompressImage req) s = compress_image w req s"
| "serve w (PostGenerateImage req_body) s = generate_image w req_body s"

text \<open>
  A run of the server: each request comes with the surroundings it is served in, and the
  state left by one is the state the next one starts from.
\<close>

fun serve_all :: "(world \<times> request) list \<Rightarrow> process_state \<Rightarrow> process_state" where
  "serve_all [] s = s"
| "serve_all ((w, r) # rest) s = serve_all rest (snd (serve w r s))"

section \<open>The routes with their middleware (src/index.js, lines 20 to 38, 46 and 118)\<close>

text \<open>
  Before a handler runs, the request passes \<open>cors\<close> and \<open>express.json()\<close> (lines 36 to
  38) and, on /api/compress-image, multer's \<open>upload.single('image')\<close> (line 46). A
  middleware that fails hands its error to Express. The source installs no error
  handler, so Express answers with its own error page: an HTML document, not JSON, with
  the status of the error, and 500 for an error without one (multer's have none). What
  Express itself logs is not recorded in the state.
\<close>

datatype http_answer = Json response | ErrorPage nat

text \<open>
  What the middleware makes of a request: it refuses it, with the status of Express's
  error page, or passes something on to the handler.
\<close>

datatype 'a screened = Refused nat | Passed 'a

text \<open>
  POST /api/generate-image as the route sees it. \<open>express.json()\<close> either refuses the
  request (a body that is not well-formed JSON, a body over its size limit) or leaves
  \<open>req.body\<close>; which requests it refuses is the parser's matter and is given with the
  request.
\<close>

definition post_generate_image ::
  "world \<Rightarrow> jsval screened \<Rightarrow> process_state \<Rightarrow> http_answer \<times> process_state" where
  "post_generate_image w rq s =
     (case rq of
        Refused code \<Rightarrow> (ErrorPage code, s)
      | Passed req_body \<Rightarrow> (case generate_image w req_body s of (r, s') \<Rightarrow> (Json r, s')))"

text \<open>
  A request to /api/compress-image: the parts of the form that carry a file, each under
  the name of its field, and the text fields (a file input that was left empty carries
  no file). \<open>parser_refusal\<close> is the status of the
  error page when a body parser refuses the request for another reason than the names,
  the number and the size of its files (a body that is not well-formed, a field over the
  parser's limits; also a file of exactly the size limit, which some versions of the
  parser refuse).
\<close>

record file_part =
  part_field :: jsstring
  part_upload :: upload

record upload_request =
  parser_refusal :: "nat option"
  file_parts :: "file_part list"
  text_fields :: form_body

text \<open>The \<open>fileSize\<close> limit of the upload middleware (line 24).\<close>

definition fileSize_limit :: nat where
  "fileSize_limit = 15 * 1024 * 1024"

text \<open>
  multer's \<open>upload.single(name)\<close>: it accepts at most one file, under the field \<open>name\<close>
  and within the size limit, and leaves it in \<open>req.file\<close>, with the text fields in
  \<open>req.body\<close>. A file under any other field, or a second file, is multer's error
  \<open>LIMIT_UNEXPECTED_FILE\<close>, a file over the limit its error \<open>LIMIT_FILE_SIZE\<close>; neither
  has a status. A request without any file is passed on without \<open>req.file\<close>.
\<close>

definition upload_single :: "jsstring \<Rightarrow> upload_request \<Rightarrow> compress_request screened" where
  "upload_single name rq =
     (case parser_refusal rq of
        Some code \<Rightarrow> Refused code
      | None \<Rightarrow>
          (case file_parts rq of
             [] \<Rightarrow> Passed \<lparr>req_file = None, req_fields = text_fields rq\<rparr>
           | [p] \<Rightarrow>
               if part_field p \<noteq> name then Refused 500
               else if fileSize_limit < file_size (part_upload p) then Refused 500
               else Passed \<lparr>req_file = Some (part_upload p), req_fields = text_fields rq\<rparr>
           | p # q # rest \<Rightarrow> Refused 500))"

definition post_compress_image ::
  "world \<Rightarrow> upload_request \<Rightarrow> process_state \<Rightarrow> http_answer \<times> process_state" where
  "post_compress_image w rq s =
     (case upload_single (lit ''image'') rq of
        Refused code \<Rightarrow> (ErrorPage code, s)
      | Passed req \<Rightarrow> (case compress_image w req s of (r, s') \<Rightarrow> (Json r, s')))"

section \<open>The statements of the specification\<close>

text \<open>
  The call that the handler makes to the provider for API key \<open>k\<close> and trimmed prompt
  \<open>t\<close>.
\<close>

definition model_run :: "jsstring \<Rightarrow> jsstring \<Rightarrow> provider_call" where
  "model_run k t =
     \<lparr>apiKey = JStr k, modelId = lit ''stabilityai/stable-diffusion-xl-base-1.0'',
      run_args = [JStr t]\<rparr>"

text \<open>
  The image URL as the specification words it: \<open>output[0]\<close> of an array, a string
  itself, the first truthy one of \<open>url\<close>, \<open>image\<close>, \<open>data\<close> of an object; nothing when
  that value is missing or falsy, and nothing for any other output.
\<close>

fun spec_imageUrl :: "jsval \<Rightarrow> jsval option" where
  "spec_imageUrl (JArr xs) = (case xs of [] \<Rightarrow> None | x # rest \<Rightarrow> if truthy x then Some x else None)"
| "spec_imageUrl (JStr s) = (if s = [] then None else Some (JStr s))"
| "spec_imageUrl (JObj kvs) =
     find truthy [getProp (JObj kvs) (lit ''url''), getProp (JObj kvs) (lit ''image''),
                  getProp (JObj kvs) (lit ''data'')]"
| "spec_imageUrl v = None"

text \<open>
  The outputs without an image URL: an empty array, an array whose first element is
  falsy, an object none of whose \<open>url\<close>, \<open>image\<close>, \<open>data\<close> is truthy.
\<close>

fun no_image_url :: "jsval \<Rightarrow> bool" where
  "no_image_url (JArr []) = True"
| "no_image_url (JArr (x # rest)) = (\<not> truthy x)"
| "no_image_url (JObj kvs) =
     (\<not> truthy (getProp (JObj kvs) (lit ''url'')) \<and> \<not> truthy (getProp (JObj kvs) (lit ''image''))
      \<and> \<not> truthy (getProp (JObj kvs) (lit ''data'')))"
| "no_image_url v = False"

text \<open>
  A prompt field that is absent, empty, or contains only white space, as the
  specification words it.
\<close>

fun prompt_missing :: "jsval \<Rightarrow> bool" where
  "prompt_missing JUndefined = True"
| "prompt_missing (JStr s) = list_all isWhiteSpace s"
| "prompt_missing v = False"

text \<open>The two error responses for a missing input.\<close>

definition prompt_required :: response where
  "prompt_required = res_json 400 [(''error'', JStr (lit ''Prompt is required''))]"

definition file_required :: response where
  "file_required = res_json 400 [(''error'', JStr (lit ''Image file is required''))]"

text \<open>
  A response that is a JSON object with \<open>success: true\<close> and status 200, or with an
  \<open>error\<close> string and status 400 or 500.
\<close>

definition success_or_error_string :: "response \<Rightarrow> bool" where
  "success_or_error_string r \<longleftrightarrow>
     typeof (body r) = lit ''object'' \<and> \<not> isArray (body r) \<and> body r \<noteq> JNull \<and>
     (status r = 200 \<and> getProp (body r) (lit ''success'') = JBool True
      \<or> (status r = 400 \<or> status r = 500) \<and> typeof (getProp (body r) (lit ''error'')) = lit ''string'')"

text \<open>Equality of two strings up to the case of the letters A to Z.\<close>

definition equal_ignoring_case :: "jsstring \<Rightarrow> jsstring \<Rightarrow> bool" where
  "equal_ignoring_case a b \<longleftrightarrow>
     list_all2 (\<lambda>x y. x = y \<or> (0x41 \<le> x \<and> x \<le> 0x5A \<and> y = x + 0x20)
                        \<or> (0x41 \<le> y \<and> y \<le> 0x5A \<and> x = y + 0x20)) a b"

text \<open>
  The MIME type as the specification gives it, from the \<open>format\<close> field and the
  \<open>mimetype\<close> of the uploaded file.
\<close>

definition spec_mimeType :: "jsstring option \<Rightarrow> jsstring option \<Rightarrow> jsstring" where
  "spec_mimeType format mime =
     (case format of
        None \<Rightarrow> lit ''image/webp''
      | Some f \<Rightarrow>
          if equal_ignoring_case f (lit ''original'') then
            (case mime of
               None \<Rightarrow> lit ''image/webp''
             | Some m \<Rightarrow>
                 if includes_str m (lit ''jpeg'') \<or> includes_str m (lit ''jpg'') then lit ''image/jpeg''
                 else if includes_str m (lit ''png'') then lit ''image/png''
                 else lit ''image/webp'')
          else lit ''image/webp'')"

text \<open>The encoder that produces a MIME type, at a quality.\<close>

definition encoder_for :: "jsstring \<Rightarrow> rat \<Rightarrow> encoder" where
  "encoder_for mimeType q =
     (if mimeType = lit ''image/jpeg'' then Jpeg q True
      else if mimeType = lit ''image/png'' then Png 9 True
      else Webp q)"

text \<open>
  The effective quality and width as the specification gives them: the integer parse of
  the field, clamped into 1 to 100, and 80 when the parse is not finite; the integer
  parse of the field when it is finite and positive, and 1600 otherwise.
\<close>

definition spec_quality :: "jsstring option \<Rightarrow> rat" where
  "spec_quality f =
     (case parseInt (field_toString f) of
        Finite n \<Rightarrow> if n < 1 then 1 else if 100 < n then 100 else n
      | _ \<Rightarrow> 80)"

definition spec_width :: "jsstring option \<Rightarrow> rat" where
  "spec_width f =
     (case parseInt (field_toString f) of
        Finite n \<Rightarrow> if 0 < n then n else 1600
      | _ \<Rightarrow> 1600)"

text \<open>
  The chain of sharp calls that a request with a file asks for: the file's buffer,
  resized to the effective width, encoded with the encoder of the MIME type at the
  effective quality.
\<close>

definition requested_pipeline :: "upload \<Rightarrow> form_body \<Rightarrow> sharp_pipeline" where
  "requested_pipeline upl form =
     \<lparr>input = buffer upl, failOnError = False, autoRotate = True,
      resize_width = spec_width (form (lit ''width'')), resize_fit = lit ''inside'',
      withoutEnlargement = True,
      output_format =
        Some (encoder_for (spec_mimeType (form (lit ''format'')) (mimetype upl))
                          (spec_quality (form (lit ''quality''))))\<rparr>"

text \<open>
  An API key that is configured: the environment variable is set and not empty.
\<close>

definition key_configured :: "world \<Rightarrow> bool" where
  "key_configured w = (case BYTEZ_API_KEY w of None \<Rightarrow> False | Some k \<Rightarrow> k \<noteq> [])"

text \<open>
  The calls to the provider that a request is due: one, with the trimmed prompt as its only argument, when the prompt is a string that is
  not blank and the API key is configured, and none otherwise (so none for a prompt that
  is not a string).
\<close>

definition calls_due :: "world \<Rightarrow> jsval \<Rightarrow> provider_call list" where
  "calls_due w req_body =
     (case getProp req_body (lit ''prompt'') of
        JStr p \<Rightarrow>
          (case BYTEZ_API_KEY w of
             Some k \<Rightarrow> if trim p \<noteq> [] \<and> k \<noteq> [] then [model_run k (trim p)] else []
           | None \<Rightarrow> [])
      | _ \<Rightarrow> [])"

text \<open>The calls to the provider that serving one request adds to the record.\<close>

definition calls_made :: "world \<Rightarrow> jsval \<Rightarrow> process_state \<Rightarrow> provider_call list" where
  "calls_made w req_body s =
     drop (length (provider_calls s)) (provider_calls (snd (generate_image w req_body s)))"

section \<open>Sample surroundings\<close>

text \<open>
  Surroundings in which the provider and the codec give the same answer to every call,
  and the state of a process that has not served anything yet.
\<close>

definition example_world :: "jsstring option \<Rightarrow> js_error + jsval \<Rightarrow> js_error + buffer \<Rightarrow> world" where
  "example_world key answer encoded =
     \<lparr>BYTEZ_API_KEY = key, bytez = (\<lambda>call. answer), sharp = (\<lambda>image. encoded)\<rparr>"

definition idle :: process_state where
  "idle = \<lparr>console = [], provider_calls = []\<rparr>"

text \<open>
  A JPEG upload that asks for its original format, a quality above the range and a
  negative width.
\<close>

definition jpeg_upload :: compress_request where
  "jpeg_upload =
     \<lparr>req_file = Some \<lparr>buffer = [0xFF, 0xD8, 0xFF], mimetype = Some (lit ''image/jpeg''), file_size = 3\<rparr>,
      req_fields = map_of [(lit ''format'', lit ''Original''), (lit ''quality'', lit ''250''),
                           (lit ''width'', lit ''-3'')]\<rparr>"

text \<open>The same upload as a request: one file under the field \<open>image\<close>.\<close>

definition jpeg_form :: upload_request where
  "jpeg_form =
     \<lparr>parser_refusal = None,
      file_parts =
        [\<lparr>part_field = lit ''image'',
          part_upload = \<lparr>buffer = [0xFF, 0xD8, 0xFF], mimetype = Some (lit ''image/jpeg''), file_size = 3\<rparr>\<rparr>],
      text_fields = map_of [(lit ''format'', lit ''Original''), (lit ''quality'', lit ''250''),
                            (lit ''width'', lit ''-3'')]\<rparr>"

text \<open>The same file under the field \<open>photo\<close>, and a form without any file.\<close>

definition photo_form :: upload_request where
  "photo_form =
     \<lparr>parser_refusal = None,
      file_parts =
        [\<lparr>part_field = lit ''photo'',
          part_upload = \<lparr>buffer = [0xFF, 0xD8, 0xFF], mimetype = Some (lit ''image/jpeg''), file_size = 3\<rparr>\<rparr>],
      text_fields = Map.empty\<rparr>"



section \<open>Facts about the JavaScript layer\<close>

lemma of_char_less: "(of_char c :: nat) < 65536"
proof -
  have "(of_char c :: nat) mod 256 = of_char c" by simp
  moreover have "(of_char c :: nat) mod 256 < 256" by simp
  ultimately have "(of_char c :: nat) < 256" by simp
  then show ?thesis by linarith
qed

lemma code_unit_inj: "(word_of_nat (of_char c) :: 16 word) = word_of_nat (of_char d) \<longleftrightarrow> c = d"
proof -
  have "take_bit 16 (of_char c :: nat) = of_char c" "take_bit 16 (of_char d :: nat) = of_char d"
    using of_char_less [of c] of_char_less [of d] by (simp_all add: take_bit_nat_eq_self_iff)
  then show ?thesis
    by (simp add: word_of_nat_eq_iff)
qed

lemma lit_eq_iff [simp]: "lit s = lit t \<longleftrightarrow> s = t"
  unfolding lit_def by (simp add: inj_map_eq_map inj_on_def code_unit_inj)

lemma lit_Nil [simp]: "lit [] = []"
  by (simp add: lit_def)

lemma lit_eq_Nil [simp]: "lit s = [] \<longleftrightarrow> s = []"
  by (simp add: lit_def)


lemma trim_example: "trim (lit '' a cat '') = lit ''a cat''"
  by (simp add: trim_def trimStart_def lit_def isWhiteSpace_def)

lemma call_trim_Inr: "call_trim src v = Inr t \<Longrightarrow> \<exists>p. v = JStr p \<and> t = trim p"
  by (cases v) auto

lemma getProp_defined: "getProp v k \<noteq> JUndefined \<Longrightarrow> \<exists>kvs. v = JObj kvs"
  by (cases v) simp_all


lemma toLowerCase_eq_iff:
  "list_all (\<lambda>y. \<not> (0x41 \<le> y \<and> y \<le> 0x5A)) b \<Longrightarrow>
     toLowerCase a = b \<longleftrightarrow> equal_ignoring_case a b"
proof (induction a arbitrary: b)
  case Nil
  then show ?case by (auto simp: toLowerCase_def equal_ignoring_case_def)
next
  case (Cons x xs)
  show ?case
  proof (cases b)
    case Nil
    then show ?thesis by (simp add: toLowerCase_def equal_ignoring_case_def)
  next
    case (Cons y ys)
    then have "toLowerCase xs = ys \<longleftrightarrow> equal_ignoring_case xs ys"
      using Cons.prems Cons.IH by simp
    then show ?thesis
      using Cons Cons.prems by (auto simp: toLowerCase_def equal_ignoring_case_def)
  qed
qed

lemma original_lower_case: "list_all (\<lambda>y. \<not> (0x41 \<le> y \<and> y \<le> 0x5A)) (lit ''original'')"
  by (simp add: lit_def)

lemma webp_not_original: "toLowerCase (lit ''webp'') \<noteq> lit ''original''"
  by (simp add: toLowerCase_def lit_def)


section \<open>Properties of /api/compress-image\<close>

lemma format_original_iff:
  "toLowerCase (field_or f (lit ''webp'')) = lit ''original'' \<longleftrightarrow>
     (\<exists>x. f = Some x \<and> equal_ignoring_case x (lit ''original''))"
proof (cases f)
  case None
  then show ?thesis by (simp add: field_or_def webp_not_original)
next
  case (Some x)
  show ?thesis
  proof (cases "x = []")
    case True
    then show ?thesis
      using Some by (simp add: field_or_def webp_not_original equal_ignoring_case_def)
  next
    case False
    then show ?thesis
      using Some toLowerCase_eq_iff [OF original_lower_case, of x] by (simp add: field_or_def)
  qed
qed

lemma effective_quality:
  "(case parseInt (field_toString f) of Finite q \<Rightarrow> min (max q 1) 100 | _ \<Rightarrow> 80) = spec_quality f"
  by (simp add: spec_quality_def split: jsnum.splits)

lemma effective_width:
  "(case parseInt (field_toString f) of Finite x \<Rightarrow> if 0 < x then x else 1600 | _ \<Rightarrow> 1600) = spec_width f"
  by (simp add: spec_width_def)

lemma inputMime_includes:
  "sub \<noteq> [] \<Longrightarrow> includes_str (field_or mime []) sub \<longleftrightarrow> (\<exists>m. mime = Some m \<and> includes_str m sub)"
  by (cases mime) (auto simp: field_or_def)

lemma compress_image_try_file:
  assumes "req_file req = Some file"
  shows "compress_image_try w req =
     (let q = spec_quality (req_fields req (lit ''quality''));
          wd = spec_width (req_fields req (lit ''width''));
          m = spec_mimeType (req_fields req (lit ''format'')) (mimetype file);
          image = \<lparr>input = buffer file, failOnError = False, autoRotate = True,
                   resize_width = wd, resize_fit = lit ''inside'',
                   withoutEnlargement = True, output_format = Some (encoder_for m q)\<rparr>
      in case sharp w image of
           Inl e \<Rightarrow> Inl e
         | Inr compressedBuffer \<Rightarrow>
             Inr (res_json 200
                  [(''success'', JBool True),
                   (''mimeType'', JStr m),
                   (''dataUrl'', JStr (lit ''data:'' @ m @ lit '';base64,'' @ lit (base64 compressedBuffer))),
                   (''originalSize'', JNum (Finite (of_nat (file_size file)))),
                   (''compressedSize'', JNum (Finite (of_nat (length compressedBuffer)))),
                   (''quality'', JNum (Finite q)),
                   (''width'', JNum (Finite wd))]))"
proof -
  let ?fmt = "req_fields req (lit ''format'')"
  let ?mime = "mimetype file"
  have sub: "lit ''jpeg'' \<noteq> []" "lit ''jpg'' \<noteq> []" "lit ''png'' \<noteq> []"
    by simp_all
  consider
      (webp) "toLowerCase (field_or ?fmt (lit ''webp'')) \<noteq> lit ''original''"
    | (jpeg) "toLowerCase (field_or ?fmt (lit ''webp'')) = lit ''original''"
        "includes_str (field_or ?mime []) (lit ''jpeg'') \<or> includes_str (field_or ?mime []) (lit ''jpg'')"
    | (png) "toLowerCase (field_or ?fmt (lit ''webp'')) = lit ''original''"
        "\<not> (includes_str (field_or ?mime []) (lit ''jpeg'') \<or> includes_str (field_or ?mime []) (lit ''jpg''))"
        "includes_str (field_or ?mime []) (lit ''png'')"
    | (other) "toLowerCase (field_or ?fmt (lit ''webp'')) = lit ''original''"
        "\<not> (includes_str (field_or ?mime []) (lit ''jpeg'') \<or> includes_str (field_or ?mime []) (lit ''jpg''))"
        "\<not> includes_str (field_or ?mime []) (lit ''png'')"
    by blast
  then show ?thesis
  proof cases
    case webp
    then have "spec_mimeType ?fmt ?mime = lit ''image/webp''"
      by (auto simp: spec_mimeType_def format_original_iff split: option.splits)
    then show ?thesis
      using assms webp
      by (simp add: compress_image_try_def effective_quality effective_width encoder_for_def Let_def
            split: sum.split)
  next
    case jpeg
    then have "spec_mimeType ?fmt ?mime = lit ''image/jpeg''"
      by (auto simp: spec_mimeType_def format_original_iff inputMime_includes [OF sub(1)]
            inputMime_includes [OF sub(2)] split: option.splits)
    then show ?thesis
      using assms jpeg
      by (simp add: compress_image_try_def effective_quality effective_width encoder_for_def Let_def
            split: sum.split)
  next
    case png
    then have "spec_mimeType ?fmt ?mime = lit ''image/png''"
      by (auto simp: spec_mimeType_def format_original_iff inputMime_includes [OF sub(1)]
            inputMime_includes [OF sub(2)] inputMime_includes [OF sub(3)] split: option.splits)
    then show ?thesis
      using assms png
      by (simp add: compress_image_try_def effective_quality effective_width encoder_for_def Let_def
            split: sum.split)
  next
    case other
    then have "spec_mimeType ?fmt ?mime = lit ''image/webp''"
      by (auto simp: spec_mimeType_def format_original_iff inputMime_includes [OF sub(1)]
            inputMime_includes [OF sub(2)] inputMime_includes [OF sub(3)] split: option.splits)
    then show ?thesis
      using assms other
      by (simp add: compress_image_try_def effective_quality effective_width encoder_for_def Let_def
            split: sum.split)
  qed
qed

lemma spec_quality_bounds: "1 \<le> spec_quality f \<and> spec_quality f \<le> 100"
  by (simp add: spec_quality_def split: jsnum.splits)

lemma spec_width_positive: "0 < spec_width f"
  by (simp add: spec_width_def split: jsnum.splits)

lemma encoder_for_cases: "encoder_for m q \<in> {Jpeg q True, Png 9 True, Webp q}"
  by (simp add: encoder_for_def)

lemma jpeg_upload_quality: "spec_quality (req_fields jpeg_upload (lit ''quality'')) = 100"
  by (simp add: jpeg_upload_def spec_quality_def field_toString_def parseInt_def trimStart_def
        isWhiteSpace_def isDigit_def digits_value_def toNumber_def lit_def)

lemma jpeg_upload_width: "spec_width (req_fields jpeg_upload (lit ''width'')) = 1600"
  by (simp add: jpeg_upload_def spec_width_def field_toString_def parseInt_def trimStart_def
        isWhiteSpace_def isDigit_def digits_value_def toNumber_def lit_def)

lemma jpeg_upload_mimeType:
  "spec_mimeType (req_fields jpeg_upload (lit ''format'')) (Some (lit ''image/jpeg'')) = lit ''image/jpeg''"
  by (simp add: jpeg_upload_def spec_mimeType_def equal_ignoring_case_def lit_def)

text \<open>
  Claim C1. A successful (status 200) response of /api/compress-image comes from a
  request with a file; its \<open>dataUrl\<close> is \<open>data:\<close>, the MIME type, \<open>;base64,\<close> and the
  base64 encoding of the bytes that the codec returned for that file's buffer, encoded
  with the encoder of that MIME type; and the MIME type, which the response also reports
  as \<open>mimeType\<close>, is the one the specification gives for the \<open>format\<close> field and the
  file's \<open>mimetype\<close>.
\<close>

theorem compress_image_data_url:
  assumes "status (fst (compress_image w req s)) = 200"
  shows "\<exists>file image compressedBuffer q.
           req_file req = Some file
         \<and> input image = buffer file
         \<and> output_format image =
             Some (encoder_for (spec_mimeType (req_fields req (lit ''format'')) (mimetype file)) q)
         \<and> sharp w image = Inr compressedBuffer
         \<and> getProp (body (fst (compress_image w req s))) (lit ''mimeType'')
             = JStr (spec_mimeType (req_fields req (lit ''format'')) (mimetype file))
         \<and> getProp (body (fst (compress_image w req s))) (lit ''dataUrl'')
             = JStr (lit ''data:'' @ spec_mimeType (req_fields req (lit ''format'')) (mimetype file)
                     @ lit '';base64,'' @ lit (base64 compressedBuffer))"
proof (cases "req_file req")
  case None
  then show ?thesis
    using assms by (simp add: compress_image_def compress_image_try_def res_json_def)
next
  case (Some upload)
  let ?m = "spec_mimeType (req_fields req (lit ''format'')) (mimetype upload)"
  let ?q = "spec_quality (req_fields req (lit ''quality''))"
  let ?image = "\<lparr>input = buffer upload, failOnError = False, autoRotate = True,
                  resize_width = spec_width (req_fields req (lit ''width'')), resize_fit = lit ''inside'',
                  withoutEnlargement = True, output_format = Some (encoder_for ?m ?q)\<rparr>"
  show ?thesis
  proof (cases "sharp w ?image")
    case (Inl e)
    then show ?thesis
      using assms Some by (simp add: compress_image_def compress_image_try_file res_json_def Let_def)
  next
    case (Inr compressedBuffer)
    then have "getProp (body (fst (compress_image w req s))) (lit ''mimeType'') = JStr ?m
      \<and> getProp (body (fst (compress_image w req s))) (lit ''dataUrl'')
          = JStr (lit ''data:'' @ ?m @ lit '';base64,'' @ lit (base64 compressedBuffer))"
      using Some by (simp add: compress_image_def compress_image_try_file res_json_def Let_def)
    moreover have "input ?image = buffer upload" "output_format ?image = Some (encoder_for ?m ?q)"
      by simp_all
    ultimately show ?thesis
      using Some Inr by blast
  qed
qed

theorem compress_image_data_url_witness:
  "status (fst (compress_image (example_world None (Inr JNull) (Inr [0x4D, 0x61, 0x6E])) jpeg_upload idle)) = 200
   \<and> getProp (body (fst (compress_image (example_world None (Inr JNull) (Inr [0x4D, 0x61, 0x6E]))
                           jpeg_upload idle))) (lit ''dataUrl'')
       = JStr (lit ''data:image/jpeg;base64,TWFu'')"
proof -
  let ?w = "example_world None (Inr JNull) (Inr [0x4D, 0x61, 0x6E])"
  have upl: "req_file jpeg_upload
      = Some \<lparr>buffer = [0xFF, 0xD8, 0xFF], mimetype = Some (lit ''image/jpeg''), file_size = 3\<rparr>"
    by (simp add: jpeg_upload_def)
  have ok: "status (fst (compress_image ?w jpeg_upload idle)) = 200"
    by (simp add: compress_image_def compress_image_try_file [OF upl] example_world_def res_json_def
          Let_def)
  from compress_image_data_url [OF ok] obtain upload image compressedBuffer
    where "req_file jpeg_upload = Some upload" "sharp ?w image = Inr compressedBuffer"
      and url: "getProp (body (fst (compress_image ?w jpeg_upload idle))) (lit ''dataUrl'')
             = JStr (lit ''data:'' @ spec_mimeType (req_fields jpeg_upload (lit ''format'')) (mimetype upload)
                     @ lit '';base64,'' @ lit (base64 compressedBuffer))"
    by blast
  then have "mimetype upload = Some (lit ''image/jpeg'')" "compressedBuffer = [0x4D, 0x61, 0x6E]"
    using upl by (auto simp: example_world_def)
  then have "getProp (body (fst (compress_image ?w jpeg_upload idle))) (lit ''dataUrl'')
             = JStr (lit ''data:'' @ lit ''image/jpeg'' @ lit '';base64,'' @ lit ''TWFu'')"
    using url by (simp add: jpeg_upload_mimeType base64_char_def base64_alphabet_def)
  then show ?thesis
    using ok by (simp add: lit_def)
qed

text \<open>
  Claim C2. For a request with a file, the effective quality \<open>q\<close> is the integer parse
  of the \<open>quality\<close> field clamped into 1 to 100, and 80 when the parse is not finite;
  the effective width \<open>wd\<close> is the integer parse of the \<open>width\<close> field when finite and
  positive, and 1600 otherwise. These are the values the codec is run with, and the
  values a successful response reports as \<open>quality\<close> and \<open>width\<close>.
\<close>

theorem compress_image_effective_options:
  assumes "req_file req = Some file"
    and "q = spec_quality (req_fields req (lit ''quality''))"
    and "wd = spec_width (req_fields req (lit ''width''))"
    and "r = fst (compress_image w req s)"
  shows "1 \<le> q \<and> q \<le> 100 \<and> 0 < wd
         \<and> (\<exists>image. resize_width image = wd
               \<and> output_format image \<in> {Some (Jpeg q True), Some (Png 9 True), Some (Webp q)}
               \<and> (case sharp w image of
                     Inl e \<Rightarrow> status r = 500
                   | Inr compressedBuffer \<Rightarrow>
                       status r = 200
                       \<and> getProp (body r) (lit ''quality'') = JNum (Finite q)
                       \<and> getProp (body r) (lit ''width'') = JNum (Finite wd)))"
proof -
  let ?m = "spec_mimeType (req_fields req (lit ''format'')) (mimetype file)"
  let ?image = "\<lparr>input = buffer file, failOnError = False, autoRotate = True,
                  resize_width = wd, resize_fit = lit ''inside'',
                  withoutEnlargement = True, output_format = Some (encoder_for ?m q)\<rparr>"
  have "case sharp w ?image of
          Inl e \<Rightarrow> status r = 500
        | Inr compressedBuffer \<Rightarrow>
            status r = 200
            \<and> getProp (body r) (lit ''quality'') = JNum (Finite q)
            \<and> getProp (body r) (lit ''width'') = JNum (Finite wd)"
    using assms
    by (simp add: compress_image_def compress_image_try_file res_json_def Let_def split: sum.split)
  moreover have "output_format ?image \<in> {Some (Jpeg q True), Some (Png 9 True), Some (Webp q)}"
    using encoder_for_cases [of ?m q] by auto
  moreover have "resize_width ?image = wd" by simp
  ultimately have "\<exists>image. resize_width image = wd
               \<and> output_format image \<in> {Some (Jpeg q True), Some (Png 9 True), Some (Webp q)}
               \<and> (case sharp w image of
                     Inl e \<Rightarrow> status r = 500
                   | Inr compressedBuffer \<Rightarrow>
                       status r = 200
                       \<and> getProp (body r) (lit ''quality'') = JNum (Finite q)
                       \<and> getProp (body r) (lit ''width'') = JNum (Finite wd))"
    by blast
  then show ?thesis
    using assms(2,3) spec_quality_bounds spec_width_positive by simp
qed

theorem compress_image_effective_options_witness:
  "req_file jpeg_upload
     = Some \<lparr>buffer = [0xFF, 0xD8, 0xFF], mimetype = Some (lit ''image/jpeg''), file_size = 3\<rparr>
   \<and> spec_quality (req_fields jpeg_upload (lit ''quality'')) = 100
   \<and> spec_width (req_fields jpeg_upload (lit ''width'')) = 1600
   \<and> getProp (body (fst (compress_image (example_world None (Inr JNull) (Inr [0x4D, 0x61, 0x6E]))
                        jpeg_upload idle))) (lit ''quality'') = JNum (Finite 100)
   \<and> getProp (body (fst (compress_image (example_world None (Inr JNull) (Inr [0x4D, 0x61, 0x6E]))
                           jpeg_upload idle))) (lit ''width'') = JNum (Finite 1600)"
proof -
  let ?w = "example_world None (Inr JNull) (Inr [0x4D, 0x61, 0x6E])"
  have upl: "req_file jpeg_upload
      = Some \<lparr>buffer = [0xFF, 0xD8, 0xFF], mimetype = Some (lit ''image/jpeg''), file_size = 3\<rparr>"
    by (simp add: jpeg_upload_def)
  from compress_image_effective_options [OF upl refl refl refl, of ?w idle]
  obtain image where
    "case sharp ?w image of
       Inl e \<Rightarrow> status (fst (compress_image ?w jpeg_upload idle)) = 500
     | Inr compressedBuffer \<Rightarrow>
         status (fst (compress_image ?w jpeg_upload idle)) = 200
         \<and> getProp (body (fst (compress_image ?w jpeg_upload idle))) (lit ''quality'')
             = JNum (Finite (spec_quality (req_fields jpeg_upload (lit ''quality''))))
         \<and> getProp (body (fst (compress_image ?w jpeg_upload idle))) (lit ''width'')
             = JNum (Finite (spec_width (req_fields jpeg_upload (lit ''width''))))"
    by blast
  then show ?thesis
    using upl by (simp add: example_world_def jpeg_upload_quality jpeg_upload_width)
qed


lemma compress_image_shape: "success_or_error_string (fst (compress_image w req s))"
proof (cases "req_file req")
  case None
  then show ?thesis
    by (simp add: compress_image_def compress_image_try_def success_or_error_string_def res_json_def)
next
  case (Some upload)
  then show ?thesis
    by (simp add: compress_image_def compress_image_try_file success_or_error_string_def res_json_def
          Let_def split: sum.split)
qed

lemma compress_image_codec_outcome:
  assumes "req_file req = Some upl"
  shows "case sharp w (requested_pipeline upl (req_fields req)) of
           Inl e \<Rightarrow>
             fst (compress_image w req s)
               = res_json 500
                   [(''error'', JStr (lit ''Failed to compress image. Please try again with a different file.''))]
         | Inr compressedBuffer \<Rightarrow>
             status (fst (compress_image w req s)) = 200
             \<and> getProp (body (fst (compress_image w req s))) (lit ''success'') = JBool True"
  using assms
  by (simp add: compress_image_def compress_image_try_file requested_pipeline_def res_json_def Let_def
        split: sum.split)

lemma compress_image_response_stateless:
  "fst (compress_image w req s) = fst (compress_image w req s')"
  by (simp add: compress_image_def split: sum.splits)


section \<open>Properties of /api/generate-image\<close>

lemma extract_imageUrl_spec:
  assumes "truthy out"
  shows "spec_imageUrl out =
           (if truthy (extract_imageUrl out) then Some (extract_imageUrl out) else None)"
proof (cases out)
  case (JArr xs)
  then show ?thesis by (cases xs) (simp_all add: extract_imageUrl_def)
next
  case (JObj kvs)
  then show ?thesis by (simp add: extract_imageUrl_def js_or_def)
qed (use assms in \<open>simp_all add: extract_imageUrl_def\<close>)

lemma no_image_url_spec: "no_image_url out \<Longrightarrow> truthy out \<and> spec_imageUrl out = None"
  by (induction out rule: no_image_url.induct) simp_all

lemma no_image_url_extract: "no_image_url out \<Longrightarrow> \<not> truthy (extract_imageUrl out)"
  using extract_imageUrl_spec [of out] no_image_url_spec [of out] by (auto split: if_splits)

lemma relay_result_output:
  assumes "\<not> truthy (getProp result (lit ''error''))" and "truthy (getProp result (lit ''output''))"
  shows "relay_result result s =
           (Inr (case spec_imageUrl (getProp result (lit ''output'')) of
                   Some imageUrl \<Rightarrow> res_json 200 [(''success'', JBool True), (''imageUrl'', imageUrl)]
                 | None \<Rightarrow> res_json 500 [(''error'', JStr (lit ''Could not extract image URL from response''))]),
            s)"
proof -
  from assms(2) have "getProp result (lit ''output'') \<noteq> JUndefined" by auto
  then obtain kvs where "result = JObj kvs" using getProp_defined by blast
  then have "destructure ''(intermediate value)'' result ''error'' = Inr (getProp result (lit ''error''))"
    by (simp add: destructure_def)
  then show ?thesis
    using assms by (simp add: relay_result_def extract_imageUrl_spec Let_def)
qed

lemma relay_result_status:
  "fst (relay_result result s) = Inr r \<Longrightarrow> no_image_url (getProp result (lit ''output''))
     \<Longrightarrow> status r = 500 \<and> getProp (body r) (lit ''success'') = JUndefined"
  by (auto simp: relay_result_def res_json_def Let_def no_image_url_spec no_image_url_extract
           split: sum.splits if_splits)


lemma relay_result_calls: "provider_calls (snd (relay_result result s)) = provider_calls s"
  by (simp add: relay_result_def console_error_def Let_def split: sum.splits)

lemma relay_result_response_stateless: "fst (relay_result result s) = fst (relay_result result s')"
  by (simp add: relay_result_def Let_def split: sum.splits)

lemma relay_result_shape:
  assumes "fst (relay_result result s) = Inr r"
  shows "success_or_error_string r
         \<or> (truthy (getProp result (lit ''error''))
            \<and> truthy (getProp (getProp result (lit ''error'')) (lit ''message''))
            \<and> typeof (getProp (getProp result (lit ''error'')) (lit ''message'')) \<noteq> lit ''string''
            \<and> r = res_json 500 [(''error'', getProp (getProp result (lit ''error'')) (lit ''message''))])"
  using assms
  by (auto simp: relay_result_def destructure_def success_or_error_string_def res_json_def js_or_def
        Let_def split: if_splits)

lemma generate_image_response:
  "fst (generate_image w req_body s) =
     (case fst (generate_image_try w req_body s) of
        Inl e \<Rightarrow> res_json 500 [(''error'', js_or (JStr (message e)) (JStr (lit ''Internal server error'')))]
      | Inr r \<Rightarrow> r)"
  by (cases "generate_image_try w req_body s") (simp add: generate_image_def split: sum.splits)

lemma generate_image_try_call:
  assumes "getProp req_body (lit ''prompt'') = JStr p" and "trim p \<noteq> []"
    and "BYTEZ_API_KEY w = Some k" and "k \<noteq> []"
  shows "generate_image_try w req_body s =
           (case bytez w (model_run k (trim p)) of
              Inl e \<Rightarrow> (Inl e, s\<lparr>provider_calls := provider_calls s @ [model_run k (trim p)]\<rparr>)
            | Inr result \<Rightarrow>
                relay_result result (s\<lparr>provider_calls := provider_calls s @ [model_run k (trim p)]\<rparr>))"
proof -
  from assms(1) have "getProp req_body (lit ''prompt'') \<noteq> JUndefined" by simp
  then obtain kvs where "req_body = JObj kvs" using getProp_defined by blast
  then have "destructure ''req.body'' req_body ''prompt'' = Inr (JStr p)"
    using assms(1) by (simp add: destructure_def)
  moreover have "p \<noteq> []" using assms(2) by (auto simp: trim_def trimStart_def)
  ultimately show ?thesis
    using assms by (simp add: generate_image_try_def model_run_def Let_def split: sum.split)
qed

text \<open>
  Claim C3. A request with a non-blank string prompt, served with a configured API key,
  for which the provider returns a value with no error and a non-empty output, is
  answered 200 with \<open>success: true\<close> and the image URL of the specification
  (\<open>output[0]\<close> of an array, a string itself, the first truthy one of \<open>url\<close>,
  \<open>image\<close>, \<open>data\<close> of an object), and 500 with
  \<open>Could not extract image URL from response\<close> when there is no such URL.
\<close>

theorem generate_image_relays_image_url:
  assumes "getProp req_body (lit ''prompt'') = JStr p" and "trim p \<noteq> []"
    and "BYTEZ_API_KEY w = Some k" and "k \<noteq> []"
    and "bytez w (model_run k (trim p)) = Inr result"
    and "\<not> truthy (getProp result (lit ''error''))"
    and "truthy (getProp result (lit ''output''))"
  shows "fst (generate_image w req_body s) =
           (case spec_imageUrl (getProp result (lit ''output'')) of
              Some imageUrl \<Rightarrow> res_json 200 [(''success'', JBool True), (''imageUrl'', imageUrl)]
            | None \<Rightarrow> res_json 500 [(''error'', JStr (lit ''Could not extract image URL from response''))])"
  using assms
  by (simp add: generate_image_def generate_image_try_call relay_result_output)

theorem generate_image_relays_image_url_witness:
  "getProp (JObj [(lit ''prompt'', JStr (lit '' a cat ''))]) (lit ''prompt'') = JStr (lit '' a cat '')
   \<and> trim (lit '' a cat '') = lit ''a cat''
   \<and> bytez (example_world (Some (lit ''key''))
               (Inr (JObj [(lit ''output'', JArr [JStr (lit ''https://cdn.example/cat.png'')])])) (Inr []))
            (model_run (lit ''key'') (lit ''a cat''))
       = Inr (JObj [(lit ''output'', JArr [JStr (lit ''https://cdn.example/cat.png'')])])
   \<and> \<not> truthy (getProp (JObj [(lit ''output'', JArr [JStr (lit ''https://cdn.example/cat.png'')])])
                      (lit ''error''))
   \<and> truthy (getProp (JObj [(lit ''output'', JArr [JStr (lit ''https://cdn.example/cat.png'')])])
                    (lit ''output''))
   \<and> fst (generate_image
          (example_world (Some (lit ''key''))
             (Inr (JObj [(lit ''output'', JArr [JStr (lit ''https://cdn.example/cat.png'')])]))
             (Inr []))
          (JObj [(lit ''prompt'', JStr (lit '' a cat ''))]) idle)
     = res_json 200 [(''success'', JBool True), (''imageUrl'', JStr (lit ''https://cdn.example/cat.png''))]"
  using generate_image_relays_image_url
    [of "JObj [(lit ''prompt'', JStr (lit '' a cat ''))]" "lit '' a cat ''"
        "example_world (Some (lit ''key''))
           (Inr (JObj [(lit ''output'', JArr [JStr (lit ''https://cdn.example/cat.png'')])])) (Inr [])"
        "lit ''key''" "JObj [(lit ''output'', JArr [JStr (lit ''https://cdn.example/cat.png'')])]" idle]
  by (simp add: example_world_def trim_example)

text \<open>
  Claim C10, amended. When the provider returns an output that is an empty array, an
  array whose first element is falsy, or an object none of whose \<open>url\<close>, \<open>image\<close>,
  \<open>data\<close> is truthy, the answer is a 500 without \<open>success\<close>; it carries the error
  \<open>Could not extract image URL from response\<close> when the provider reports no error
  beside that output. (With an error beside it the error branch, which comes first,
  answers.)
\<close>

theorem generate_image_without_image_url:
  assumes "getProp req_body (lit ''prompt'') = JStr p" and "trim p \<noteq> []"
    and "BYTEZ_API_KEY w = Some k" and "k \<noteq> []"
    and "bytez w (model_run k (trim p)) = Inr result"
    and "no_image_url (getProp result (lit ''output''))"
  shows "status (fst (generate_image w req_body s)) = 500
         \<and> getProp (body (fst (generate_image w req_body s))) (lit ''success'') = JUndefined
         \<and> (\<not> truthy (getProp result (lit ''error'')) \<longrightarrow>
              fst (generate_image w req_body s) =
                res_json 500 [(''error'', JStr (lit ''Could not extract image URL from response''))])"
proof -
  let ?s1 = "s\<lparr>provider_calls := provider_calls s @ [model_run k (trim p)]\<rparr>"
  have body_of_try: "generate_image_try w req_body s = relay_result result ?s1"
    using assms by (simp add: generate_image_try_call)
  show ?thesis
  proof (cases "fst (relay_result result ?s1)")
    case (Inl e)
    then have "fst (generate_image w req_body s) =
        res_json 500 [(''error'', js_or (JStr (message e)) (JStr (lit ''Internal server error'')))]"
      using body_of_try by (simp add: generate_image_response)
    moreover have "truthy (getProp result (lit ''output''))"
      using assms(6) no_image_url_spec by blast
    then have "getProp result (lit ''output'') \<noteq> JUndefined" by auto
    then obtain kvs where "result = JObj kvs" using getProp_defined by blast
    then have "fst (relay_result result ?s1) \<noteq> Inl e"
      by (simp add: relay_result_def destructure_def Let_def)
    ultimately show ?thesis using Inl by simp
  next
    case (Inr r)
    then have r: "fst (generate_image w req_body s) = r"
      using body_of_try by (simp add: generate_image_response)
    have "status r = 500 \<and> getProp (body r) (lit ''success'') = JUndefined"
      using Inr assms(6) relay_result_status by blast
    moreover have "\<not> truthy (getProp result (lit ''error'')) \<longrightarrow>
        r = res_json 500 [(''error'', JStr (lit ''Could not extract image URL from response''))]"
      using Inr assms(6) relay_result_output [of result ?s1] no_image_url_spec
      by auto
    ultimately show ?thesis using r by simp
  qed
qed

theorem generate_image_without_image_url_witness:
  "bytez (example_world (Some (lit ''key'')) (Inr (JObj [(lit ''output'', JArr [])])) (Inr []))
         (model_run (lit ''key'') (lit ''a cat''))
     = Inr (JObj [(lit ''output'', JArr [])])
   \<and> no_image_url (getProp (JObj [(lit ''output'', JArr [])]) (lit ''output''))
   \<and> \<not> truthy (getProp (JObj [(lit ''output'', JArr [])]) (lit ''error''))
   \<and> status (fst (generate_image
       (example_world (Some (lit ''key'')) (Inr (JObj [(lit ''output'', JArr [])])) (Inr []))
       (JObj [(lit ''prompt'', JStr (lit '' a cat ''))]) idle)) = 500
   \<and> fst (generate_image
       (example_world (Some (lit ''key'')) (Inr (JObj [(lit ''output'', JArr [])])) (Inr []))
       (JObj [(lit ''prompt'', JStr (lit '' a cat ''))]) idle)
     = res_json 500 [(''error'', JStr (lit ''Could not extract image URL from response''))]"
  using generate_image_without_image_url
    [of "JObj [(lit ''prompt'', JStr (lit '' a cat ''))]" "lit '' a cat ''"
        "example_world (Some (lit ''key'')) (Inr (JObj [(lit ''output'', JArr [])])) (Inr [])"
        "lit ''key''" "JObj [(lit ''output'', JArr [])]" idle]
  by (simp add: example_world_def trim_example res_json_def)

text \<open>
  Claim C10 as it is worded fails when the provider reports an error beside such an
  output: the answer is the error branch's.
\<close>

theorem generate_image_error_beside_output:
  "bytez (example_world (Some (lit ''key''))
            (Inr (JObj [(lit ''error'', JStr (lit ''boom'')), (lit ''output'', JArr [])])) (Inr []))
         (model_run (lit ''key'') (lit ''a cat''))
     = Inr (JObj [(lit ''error'', JStr (lit ''boom'')), (lit ''output'', JArr [])])
   \<and> no_image_url (getProp (JObj [(lit ''error'', JStr (lit ''boom'')), (lit ''output'', JArr [])])
                      (lit ''output''))
   \<and> fst (generate_image
       (example_world (Some (lit ''key''))
          (Inr (JObj [(lit ''error'', JStr (lit ''boom'')), (lit ''output'', JArr [])])) (Inr []))
       (JObj [(lit ''prompt'', JStr (lit '' a cat ''))]) idle)
     = res_json 500 [(''error'', JStr (lit ''Failed to generate image''))]
   \<and> res_json 500 [(''error'', JStr (lit ''Failed to generate image''))]
     \<noteq> res_json 500 [(''error'', JStr (lit ''Could not extract image URL from response''))]"
  by (simp add: generate_image_response generate_image_try_call [where p = "lit '' a cat ''" and k = "lit ''key''"]
        example_world_def trim_example relay_result_def destructure_def js_or_def res_json_def Let_def)



lemma post_compress_image_answer:
  "fst (post_compress_image w rq s) =
     (case upload_single (lit ''image'') rq of
        Refused code \<Rightarrow> ErrorPage code
      | Passed req \<Rightarrow> Json (fst (compress_image w req s)))"
  by (simp add: post_compress_image_def split: screened.split prod.split)

lemma post_generate_image_answer:
  "fst (post_generate_image w rq s) =
     (case rq of
        Refused code \<Rightarrow> ErrorPage code
      | Passed req_body \<Rightarrow> Json (fst (generate_image w req_body s)))"
  by (simp add: post_generate_image_def split: screened.split prod.split)





lemma refused_upload_is_answered_by_express:
  assumes "parser_refusal rq = None" and "file_parts rq = [p]"
    and "part_field p \<noteq> lit ''image'' \<or> fileSize_limit < file_size (part_upload p)"
  shows "fst (post_compress_image w rq s) = ErrorPage 500"
  using assms by (auto simp: post_compress_image_answer upload_single_def)

text \<open>
  A file under another field name: no file was uploaded under \<open>image\<close>, yet the answer
  is not the 400 of the handler but the error page of Express, with status 500.
\<close>

lemma file_under_another_field_is_refused:
  "map part_field (file_parts photo_form) = [lit ''photo'']
   \<and> fst (post_compress_image (example_world None (Inr JNull) (Inr [])) photo_form idle) = ErrorPage 500
   \<and> ErrorPage 500 \<noteq> Json file_required"
  by (simp add: post_compress_image_answer upload_single_def photo_form_def)

lemma generate_image_calls_try:
  "provider_calls (snd (generate_image w req_body s)) = provider_calls (snd (generate_image_try w req_body s))"
  by (cases "generate_image_try w req_body s") (simp add: generate_image_def console_error_def split: sum.splits)

lemma generate_image_try_calls:
  "provider_calls (snd (generate_image_try w req_body s)) = provider_calls s @ calls_due w req_body"
proof (cases "req_body = JUndefined \<or> req_body = JNull")
  case True
  then show ?thesis
    by (auto simp: generate_image_try_def destructure_def calls_due_def)
next
  case False
  then have d: "destructure ''req.body'' req_body ''prompt'' = Inr (getProp req_body (lit ''prompt''))"
    by (simp add: destructure_def)
  show ?thesis
  proof (cases "getProp req_body (lit ''prompt'')")
    case (JStr p)
    show ?thesis
    proof (cases "trim p \<noteq> [] \<and> (\<exists>k. BYTEZ_API_KEY w = Some k \<and> k \<noteq> [])")
      case True
      then obtain k where "BYTEZ_API_KEY w = Some k" "k \<noteq> []" "trim p \<noteq> []" by blast
      then show ?thesis
        using JStr
        by (simp add: generate_image_try_call calls_due_def relay_result_calls split: sum.split)
    next
      case False
      then show ?thesis
        using d JStr
        by (auto simp: generate_image_try_def calls_due_def Let_def split: option.splits)
    qed
  qed (use d in \<open>simp_all add: generate_image_try_def calls_due_def\<close>)
qed

lemma calls_made_due: "calls_made w req_body s = calls_due w req_body"
  by (simp add: calls_made_def generate_image_calls_try generate_image_try_calls)

lemma calls_due_length: "length (calls_due w req_body) \<le> 1"
  by (simp add: calls_due_def split: jsval.splits option.splits)

lemma generate_image_try_response_stateless:
  "fst (generate_image_try w req_body s) = fst (generate_image_try w req_body s')"
  using relay_result_response_stateless
  by (simp add: generate_image_try_def Let_def split: sum.splits option.splits)

lemma generate_image_response_stateless:
  "fst (generate_image w req_body s) = fst (generate_image w req_body s')"
  using generate_image_try_response_stateless [of w req_body s s']
  by (simp add: generate_image_response)

lemma generate_image_depends_on_call:
  assumes "BYTEZ_API_KEY w' = BYTEZ_API_KEY w"
    and "\<forall>call \<in> set (calls_due w req_body). bytez w' call = bytez w call"
  shows "fst (generate_image w' req_body s') = fst (generate_image w req_body s)"
proof -
  have "fst (generate_image_try w' req_body s') = fst (generate_image_try w req_body s)"
  proof (cases "\<exists>p k. getProp req_body (lit ''prompt'') = JStr p \<and> trim p \<noteq> []
                       \<and> BYTEZ_API_KEY w = Some k \<and> k \<noteq> []")
    case True
    then obtain p k where pk: "getProp req_body (lit ''prompt'') = JStr p" "trim p \<noteq> []"
        "BYTEZ_API_KEY w = Some k" "k \<noteq> []" by blast
    then have "bytez w' (model_run k (trim p)) = bytez w (model_run k (trim p))"
      using assms(2) by (simp add: calls_due_def)
    then show ?thesis
      using pk assms(1) relay_result_response_stateless
      by (simp add: generate_image_try_call split: sum.split)
  next
    case False
    then show ?thesis
      using assms(1)
      by (auto simp: generate_image_try_def Let_def destructure_def
               split: sum.splits option.splits dest!: call_trim_Inr)
  qed
  then show ?thesis by (simp add: generate_image_response)
qed

text \<open>
  Claim C8, amended. Serving a request to /api/generate-image adds to the record of
  provider calls exactly the calls the request is due: one call, with the trimmed prompt
  as its only argument, when the prompt is a string that is not blank and the API key is
  configured, and none otherwise (none for a prompt that is not a string, and none for a
  request that the JSON parser refuses); so never more than one. Nothing is reused or
  stored: whatever the state of the process, the response is the same in any
  surroundings with the same API key whose provider gives the same answer to this one
  call.
\<close>

theorem provider_is_called_at_most_once:
  "calls_made w req_body s = calls_due w req_body
   \<and> length (calls_made w req_body s) \<le> 1
   \<and> provider_calls (snd (generate_image w req_body s)) = provider_calls s @ calls_made w req_body s
   \<and> (BYTEZ_API_KEY w' = BYTEZ_API_KEY w
        \<and> (\<forall>call \<in> set (calls_made w req_body s). bytez w' call = bytez w call)
      \<longrightarrow> fst (generate_image w' req_body s') = fst (generate_image w req_body s))
   \<and> provider_calls (snd (post_generate_image w (Passed req_body) s))
       = provider_calls s @ calls_made w req_body s
   \<and> provider_calls (snd (post_generate_image w (Refused code) s)) = provider_calls s"
proof -
  have "length (calls_due w req_body) \<le> 1"
    by (rule calls_due_length)
  moreover have "provider_calls (snd (generate_image w req_body s)) = provider_calls s @ calls_due w req_body"
    by (simp add: generate_image_calls_try generate_image_try_calls)
  moreover have "BYTEZ_API_KEY w' = BYTEZ_API_KEY w
        \<and> (\<forall>call \<in> set (calls_due w req_body). bytez w' call = bytez w call)
      \<longrightarrow> fst (generate_image w' req_body s') = fst (generate_image w req_body s)"
    using generate_image_depends_on_call [of w' w req_body s' s] by blast
  moreover have "provider_calls (snd (post_generate_image w (Passed req_body) s))
       = provider_calls (snd (generate_image w req_body s))"
    by (simp add: post_generate_image_def split: prod.split)
  moreover have "provider_calls (snd (post_generate_image w (Refused code) s)) = provider_calls s"
    by (simp add: post_generate_image_def)
  ultimately show ?thesis
    by (simp only: calls_made_due simp_thms)
qed

theorem provider_is_called_at_most_once_witness:
  "calls_made (example_world (Some (lit ''key'')) (Inr JNull) (Inr []))
      (JObj [(lit ''prompt'', JStr (lit '' a cat ''))]) idle
   = [\<lparr>apiKey = JStr (lit ''key''), modelId = lit ''stabilityai/stable-diffusion-xl-base-1.0'',
       run_args = [JStr (lit ''a cat'')]\<rparr>]
   \<and> fst (generate_image (example_world (Some (lit ''key'')) (Inr JNull) (Inr []))
            (JObj [(lit ''prompt'', JStr (lit '' a cat ''))])
            (serve_all [(example_world (Some (lit ''key'')) (Inr JNull) (Inr []), GetHealth)] idle))
     = fst (generate_image (example_world (Some (lit ''key'')) (Inr JNull) (Inr []))
            (JObj [(lit ''prompt'', JStr (lit '' a cat ''))]) idle)"
  using provider_is_called_at_most_once
    [where w = "example_world (Some (lit ''key'')) (Inr JNull) (Inr [])"
       and req_body = "JObj [(lit ''prompt'', JStr (lit '' a cat ''))]" and s = idle
       and w' = "example_world (Some (lit ''key'')) (Inr JNull) (Inr [])"
       and s' = "serve_all [(example_world (Some (lit ''key'')) (Inr JNull) (Inr []), GetHealth)] idle"]
  by (simp add: calls_due_def trim_example model_run_def example_world_def)

text \<open>
  Claim C8 as it is worded fails on a prompt that is not a string: the number 5 is not
  absent, not empty and holds no white space, and the API key is configured, yet no call
  is made (\<open>prompt.trim\<close> is not a function, and the answer is a 500).
\<close>

theorem number_prompt_is_not_sent:
  "\<not> prompt_missing (getProp (JObj [(lit ''prompt'', JNum (Finite 5))]) (lit ''prompt''))
   \<and> key_configured (example_world (Some (lit ''key'')) (Inr JNull) (Inr []))
   \<and> calls_made (example_world (Some (lit ''key'')) (Inr JNull) (Inr []))
        (JObj [(lit ''prompt'', JNum (Finite 5))]) idle = []
   \<and> fst (generate_image (example_world (Some (lit ''key'')) (Inr JNull) (Inr []))
            (JObj [(lit ''prompt'', JNum (Finite 5))]) idle)
       = res_json 500 [(''error'', JStr (lit ''prompt.trim is not a function''))]"
  by (simp add: calls_made_def generate_image_def generate_image_try_def destructure_def
        key_configured_def example_world_def idle_def console_error_def js_or_def)

lemma generate_image_try_shape:
  assumes "fst (generate_image_try w req_body s) = Inr r"
  shows "success_or_error_string r
         \<or> (\<exists>call result.
              bytez w call = Inr result
              \<and> truthy (getProp result (lit ''error''))
              \<and> truthy (getProp (getProp result (lit ''error'')) (lit ''message''))
              \<and> typeof (getProp (getProp result (lit ''error'')) (lit ''message'')) \<noteq> lit ''string''
              \<and> r = res_json 500 [(''error'', getProp (getProp result (lit ''error'')) (lit ''message''))])"
proof -
  have simple: "success_or_error_string (res_json 400 [(''error'', JStr m)])"
       "success_or_error_string (res_json 500 [(''error'', JStr m)])" for m
    by (simp_all add: success_or_error_string_def res_json_def)
  show ?thesis
    using assms
    by (fastforce simp: generate_image_try_def Let_def simple
          split: sum.splits if_splits option.splits dest: relay_result_shape)
qed

lemma generate_image_shape:
  "success_or_error_string (fst (generate_image w req_body s))
   \<or> (\<exists>call result.
         bytez w call = Inr result
         \<and> truthy (getProp result (lit ''error''))
         \<and> truthy (getProp (getProp result (lit ''error'')) (lit ''message''))
         \<and> typeof (getProp (getProp result (lit ''error'')) (lit ''message'')) \<noteq> lit ''string''
         \<and> fst (generate_image w req_body s)
             = res_json 500 [(''error'', getProp (getProp result (lit ''error'')) (lit ''message''))])"
proof (cases "fst (generate_image_try w req_body s)")
  case (Inl e)
  then show ?thesis
    by (simp add: generate_image_response success_or_error_string_def res_json_def js_or_def)
next
  case (Inr r)
  then show ?thesis
    using generate_image_try_shape [OF Inr] by (simp add: generate_image_response)
qed

lemma provider_failure_is_answered_500:
  assumes "getProp req_body (lit ''prompt'') = JStr p" and "trim p \<noteq> []"
    and "BYTEZ_API_KEY w = Some k" and "k \<noteq> []"
    and "bytez w (model_run k (trim p)) = Inl e"
  shows "fst (generate_image w req_body s)
           = res_json 500 [(''error'', JStr (if message e = [] then lit ''Internal server error'' else message e))]"
  using assms by (simp add: generate_image_response generate_image_try_call js_or_def)

lemma provider_error_is_answered_500:
  assumes "getProp req_body (lit ''prompt'') = JStr p" and "trim p \<noteq> []"
    and "BYTEZ_API_KEY w = Some k" and "k \<noteq> []"
    and "bytez w (model_run k (trim p)) = Inr result"
    and "truthy (getProp result (lit ''error''))"
  shows "fst (generate_image w req_body s)
           = res_json 500 [(''error'', js_or (getProp (getProp result (lit ''error'')) (lit ''message''))
                                              (JStr (lit ''Failed to generate image'')))]"
proof -
  from assms(6) have "getProp result (lit ''error'') \<noteq> JUndefined" by auto
  then obtain kvs where "result = JObj kvs" using getProp_defined by blast
  then have "destructure ''(intermediate value)'' result ''error'' = Inr (getProp result (lit ''error''))"
    by (simp add: destructure_def)
  then show ?thesis
    using assms by (simp add: generate_image_response generate_image_try_call relay_result_def Let_def)
qed


section \<open>Properties of both operations\<close>

text \<open>
  Claim C6, amended. A request that a body parser or multer refuses is answered by the
  error page of Express, which is not JSON. Every other response of the two operations
  is the handler's: a JSON object that has \<open>success: true\<close> with status 200, or an
  \<open>error\<close> with status 400 or 500. The error is a string, except when the provider
  reports an error object whose \<open>message\<close> is truthy and not a string: that message is
  relayed as it is, with status 500. The error outcomes of the two libraries are all
  answered in this form: when the codec fails on the chain of calls of this request, 500
  with a fixed text (and 200 with \<open>success: true\<close> when it does not fail); when the
  provider throws on the call of this request, 500 with the message of the exception, or
  \<open>Internal server error\<close> when that is empty; when the provider reports an error, 500
  with its message, or \<open>Failed to generate image\<close> when it has none.
\<close>

theorem every_response_is_success_or_error:
  "(case upload_single (lit ''image'') rq of
      Refused code \<Rightarrow> fst (post_compress_image w rq s) = ErrorPage code
    | Passed req \<Rightarrow>
        fst (post_compress_image w rq s) = Json (fst (compress_image w req s))
        \<and> success_or_error_string (fst (compress_image w req s))
        \<and> (\<forall>upl. req_file req = Some upl \<longrightarrow>
             (case sharp w (requested_pipeline upl (req_fields req)) of
                Inl e \<Rightarrow>
                  fst (compress_image w req s)
                    = res_json 500
                        [(''error'', JStr (lit ''Failed to compress image. Please try again with a different file.''))]
              | Inr compressedBuffer \<Rightarrow>
                  status (fst (compress_image w req s)) = 200
                  \<and> getProp (body (fst (compress_image w req s))) (lit ''success'') = JBool True)))
   \<and> (case rq' of
        Refused code \<Rightarrow> fst (post_generate_image w rq' s') = ErrorPage code
      | Passed req_body \<Rightarrow>
          fst (post_generate_image w rq' s') = Json (fst (generate_image w req_body s'))
          \<and> (success_or_error_string (fst (generate_image w req_body s'))
              \<or> (\<exists>call result.
                    bytez w call = Inr result
                    \<and> truthy (getProp result (lit ''error''))
                    \<and> truthy (getProp (getProp result (lit ''error'')) (lit ''message''))
                    \<and> typeof (getProp (getProp result (lit ''error'')) (lit ''message'')) \<noteq> lit ''string''
                    \<and> fst (generate_image w req_body s')
                        = res_json 500
                            [(''error'', getProp (getProp result (lit ''error'')) (lit ''message''))]))
          \<and> (\<forall>p k. getProp req_body (lit ''prompt'') = JStr p \<and> trim p \<noteq> []
                    \<and> BYTEZ_API_KEY w = Some k \<and> k \<noteq> [] \<longrightarrow>
               (case bytez w (model_run k (trim p)) of
                  Inl e \<Rightarrow>
                    fst (generate_image w req_body s')
                      = res_json 500
                          [(''error'', JStr (if message e = [] then lit ''Internal server error''
                                             else message e))]
                | Inr result \<Rightarrow>
                    truthy (getProp result (lit ''error'')) \<longrightarrow>
                    fst (generate_image w req_body s')
                      = res_json 500
                          [(''error'', js_or (getProp (getProp result (lit ''error'')) (lit ''message''))
                                             (JStr (lit ''Failed to generate image'')))])))"
proof -
  have compress: "case upload_single (lit ''image'') rq of
      Refused code \<Rightarrow> fst (post_compress_image w rq s) = ErrorPage code
    | Passed req \<Rightarrow>
        fst (post_compress_image w rq s) = Json (fst (compress_image w req s))
        \<and> success_or_error_string (fst (compress_image w req s))
        \<and> (\<forall>upl. req_file req = Some upl \<longrightarrow>
             (case sharp w (requested_pipeline upl (req_fields req)) of
                Inl e \<Rightarrow>
                  fst (compress_image w req s)
                    = res_json 500
                        [(''error'', JStr (lit ''Failed to compress image. Please try again with a different file.''))]
              | Inr compressedBuffer \<Rightarrow>
                  status (fst (compress_image w req s)) = 200
                  \<and> getProp (body (fst (compress_image w req s))) (lit ''success'') = JBool True))"
    using compress_image_shape compress_image_codec_outcome
    by (simp add: post_compress_image_answer split: screened.split)
  have provider: "getProp req_body (lit ''prompt'') = JStr p \<and> trim p \<noteq> []
                    \<and> BYTEZ_API_KEY w = Some k \<and> k \<noteq> [] \<longrightarrow>
               (case bytez w (model_run k (trim p)) of
                  Inl e \<Rightarrow>
                    fst (generate_image w req_body s')
                      = res_json 500
                          [(''error'', JStr (if message e = [] then lit ''Internal server error''
                                             else message e))]
                | Inr result \<Rightarrow>
                    truthy (getProp result (lit ''error'')) \<longrightarrow>
                    fst (generate_image w req_body s')
                      = res_json 500
                          [(''error'', js_or (getProp (getProp result (lit ''error'')) (lit ''message''))
                                             (JStr (lit ''Failed to generate image'')))])"
    for req_body p k
    using provider_failure_is_answered_500 [of req_body p w k _ s']
      provider_error_is_answered_500 [of req_body p w k _ s']
    by (auto split: sum.split)
  have generate: "case rq' of
        Refused code \<Rightarrow> fst (post_generate_image w rq' s') = ErrorPage code
      | Passed req_body \<Rightarrow>
          fst (post_generate_image w rq' s') = Json (fst (generate_image w req_body s'))
          \<and> (success_or_error_string (fst (generate_image w req_body s'))
              \<or> (\<exists>call result.
                    bytez w call = Inr result
                    \<and> truthy (getProp result (lit ''error''))
                    \<and> truthy (getProp (getProp result (lit ''error'')) (lit ''message''))
                    \<and> typeof (getProp (getProp result (lit ''error'')) (lit ''message'')) \<noteq> lit ''string''
                    \<and> fst (generate_image w req_body s')
                        = res_json 500
                            [(''error'', getProp (getProp result (lit ''error'')) (lit ''message''))]))
          \<and> (\<forall>p k. getProp req_body (lit ''prompt'') = JStr p \<and> trim p \<noteq> []
                    \<and> BYTEZ_API_KEY w = Some k \<and> k \<noteq> [] \<longrightarrow>
               (case bytez w (model_run k (trim p)) of
                  Inl e \<Rightarrow>
                    fst (generate_image w req_body s')
                      = res_json 500
                          [(''error'', JStr (if message e = [] then lit ''Internal server error''
                                             else message e))]
                | Inr result \<Rightarrow>
                    truthy (getProp result (lit ''error'')) \<longrightarrow>
                    fst (generate_image w req_body s')
                      = res_json 500
                          [(''error'', js_or (getProp (getProp result (lit ''error'')) (lit ''message''))
                                             (JStr (lit ''Failed to generate image'')))]))"
  proof (cases rq')
    case (Refused code)
    then show ?thesis by (simp add: post_generate_image_answer)
  next
    case (Passed req_body)
    then show ?thesis
      using generate_image_shape [of w req_body s'] provider [of req_body]
      by (simp add: post_generate_image_answer)
  qed
  from compress generate show ?thesis by (rule conjI)
qed

theorem every_response_is_success_or_error_witness:
  "upload_single (lit ''image'') jpeg_form = Passed jpeg_upload
   \<and> fst (post_compress_image
       (example_world (Some (lit ''key'')) (Inl (LibraryError (lit ''timeout'')))
          (Inl (LibraryError (lit ''Input buffer contains unsupported image format''))))
       jpeg_form idle)
     = Json (res_json 500
         [(''error'', JStr (lit ''Failed to compress image. Please try again with a different file.''))])
   \<and> success_or_error_string (res_json 500
         [(''error'', JStr (lit ''Failed to compress image. Please try again with a different file.''))])
   \<and> fst (post_generate_image
       (example_world (Some (lit ''key'')) (Inl (LibraryError (lit ''timeout'')))
          (Inl (LibraryError (lit ''Input buffer contains unsupported image format''))))
       (Passed (JObj [(lit ''prompt'', JStr (lit '' a cat ''))])) idle)
     = Json (res_json 500 [(''error'', JStr (lit ''timeout''))])
   \<and> success_or_error_string (res_json 500 [(''error'', JStr (lit ''timeout''))])"
proof -
  let ?w = "example_world (Some (lit ''key'')) (Inl (LibraryError (lit ''timeout'')))
              (Inl (LibraryError (lit ''Input buffer contains unsupported image format'')))"
  have passed: "upload_single (lit ''image'') jpeg_form = Passed jpeg_upload"
    by (simp add: upload_single_def jpeg_form_def jpeg_upload_def fileSize_limit_def)
  have upl: "req_file jpeg_upload
      = Some \<lparr>buffer = [0xFF, 0xD8, 0xFF], mimetype = Some (lit ''image/jpeg''), file_size = 3\<rparr>"
    by (simp add: jpeg_upload_def)
  have prompt: "getProp (JObj [(lit ''prompt'', JStr (lit '' a cat ''))]) (lit ''prompt'') = JStr (lit '' a cat '')"
    by simp
  note all = every_response_is_success_or_error
    [where rq = jpeg_form and w = ?w and s = idle
       and rq' = "Passed (JObj [(lit ''prompt'', JStr (lit '' a cat ''))])" and s' = idle]
  from all passed upl
  have "fst (post_compress_image ?w jpeg_form idle)
     = Json (res_json 500
         [(''error'', JStr (lit ''Failed to compress image. Please try again with a different file.''))])"
    by (simp add: example_world_def)
  moreover from all prompt
  have "fst (post_generate_image ?w (Passed (JObj [(lit ''prompt'', JStr (lit '' a cat ''))])) idle)
     = Json (res_json 500 [(''error'', JStr (lit ''timeout''))])"
    by (simp add: example_world_def trim_example)
  ultimately show ?thesis
    using passed by (simp add: success_or_error_string_def res_json_def)
qed

text \<open>
  Claim C6 as it is worded fails when the provider reports an error object whose message
  is not a string: the response carries that message, here a number, as its \<open>error\<close>.
\<close>

theorem error_need_not_be_a_string:
  "fst (generate_image
       (example_world (Some (lit ''key''))
          (Inr (JObj [(lit ''error'', JObj [(lit ''message'', JNum (Finite 42))])])) (Inr []))
       (JObj [(lit ''prompt'', JStr (lit '' a cat ''))]) idle)
     = res_json 500 [(''error'', JNum (Finite 42))]
   \<and> \<not> success_or_error_string (res_json 500 [(''error'', JNum (Finite 42))])"
  by (simp add: generate_image_response generate_image_try_call [where p = "lit '' a cat ''" and k = "lit ''key''"]
        example_world_def trim_example relay_result_def destructure_def js_or_def res_json_def Let_def
        success_or_error_string_def)

text \<open>
  A request whose body the JSON parser refuses (with status 400 when the body is not
  well-formed) never reaches the handler: the answer is the error page of Express.
\<close>

lemma malformed_body_is_refused:
  "fst (post_generate_image (example_world None (Inr JNull) (Inr [])) (Refused 400) idle) = ErrorPage 400"
  by (simp add: post_generate_image_answer)

lemma serve_response_stateless: "fst (serve w r s) = fst (serve w r s')"
  by (cases r) (simp_all add: generate_image_response_stateless compress_image_response_stateless)

text \<open>
  Claim C7. The response to a request is the same after any two histories: whatever
  requests were served before, in whatever surroundings, and from whatever state the
  process started, the same request in the same surroundings (environment variable,
  answers of the provider and the codec) gets the same status and body.
\<close>

theorem responses_do_not_depend_on_earlier_requests:
  "fst (serve w r (serve_all earlier s)) = fst (serve w r (serve_all earlier' s'))"
  by (rule serve_response_stateless)

theorem responses_do_not_depend_on_earlier_requests_witness:
  "fst (serve (example_world None (Inr JNull) (Inr [])) (PostGenerateImage (JObj []))
          (serve_all [(example_world (Some (lit ''key'')) (Inr JNull) (Inr []),
                       PostGenerateImage (JObj [(lit ''prompt'', JStr (lit ''a cat''))]))] idle))
   = fst (serve (example_world None (Inr JNull) (Inr [])) (PostGenerateImage (JObj [])) (serve_all [] idle))
   \<and> fst (serve (example_world None (Inr JNull) (Inr [])) (PostGenerateImage (JObj [])) (serve_all [] idle))
     = prompt_required"
  using responses_do_not_depend_on_earlier_requests
    [of "example_world None (Inr JNull) (Inr [])" "PostGenerateImage (JObj [])"
        "[(example_world (Some (lit ''key'')) (Inr JNull) (Inr []),
           PostGenerateImage (JObj [(lit ''prompt'', JStr (lit ''a cat''))]))]" idle "[]" idle]
  by (simp add: generate_image_response generate_image_try_def destructure_def prompt_required_def)


section \<open>The two versions of the generation handler\<close>

lemma extract_imageUrl_agree: "extract_imageUrl_part_000 out = extract_imageUrl out"
  by (simp add: extract_imageUrl_part_000_def extract_imageUrl_def)

lemma relay_result_agree: "relay_result_part_000 result s = relay_result result s"
  by (simp add: relay_result_part_000_def relay_result_def extract_imageUrl_agree Let_def
        split: sum.split)

lemma generate_image_try_agree:
  "generate_image_try_part_000 w req_body s = generate_image_try w req_body s"
  by (simp add: generate_image_try_part_000_def generate_image_try_def relay_result_agree Let_def
        split: sum.split)

text \<open>
  Claim C9. The /api/generate-image handler of src/unnamed/part_000 and the one of
  src/index.js give the same status and the same body on every request body, in all
  surroundings (and leave the same state).
\<close>

theorem generate_image_handlers_agree:
  "status (fst (generate_image_part_000 w req_body s)) = status (fst (generate_image w req_body s))
   \<and> body (fst (generate_image_part_000 w req_body s)) = body (fst (generate_image w req_body s))
   \<and> snd (generate_image_part_000 w req_body s) = snd (generate_image w req_body s)"
  by (simp add: generate_image_part_000_def generate_image_def generate_image_try_agree)

theorem generate_image_handlers_agree_witness:
  "status (fst (generate_image_part_000 (example_world None (Inr JNull) (Inr [])) (JObj []) idle)) = 400
   \<and> status (fst (generate_image (example_world None (Inr JNull) (Inr [])) (JObj []) idle)) = 400
   \<and> body (fst (generate_image_part_000 (example_world None (Inr JNull) (Inr [])) (JObj []) idle))
     = body (fst (generate_image (example_world None (Inr JNull) (Inr [])) (JObj []) idle))"
  using generate_image_handlers_agree [of "example_world None (Inr JNull) (Inr [])" "JObj []" idle]
  by (simp add: generate_image_response generate_image_try_def destructure_def res_json_def)


section \<open>The routes\<close>

text \<open>
  Claim C5, amended. The registered routes are exactly four: the CORS preflight on
  OPTIONS for every path, the health check GET /api/health, the image re-encoding
  POST /api/compress-image and the text-to-image generation POST /api/generate-image.
\<close>

theorem registered_routes:
  "registered m path = Some h \<longleftrightarrow>
     (m, path, h) = (OPTIONS, ''*'', CorsPreflight)
     \<or> (m, path, h) = (GET, ''/api/health'', Health)
     \<or> (m, path, h) = (POST, ''/api/compress-image'', CompressImage)
     \<or> (m, path, h) = (POST, ''/api/generate-image'', GenerateImage)"
  by (auto simp: registered_def routes_def split: if_splits)

theorem registered_routes_witness:
  "registered POST ''/api/generate-image'' = Some GenerateImage
   \<and> registered POST ''/api/compress-image'' = Some CompressImage
   \<and> registered POST ''/api/health'' \<noteq> Some Health"
  using registered_routes [of POST "''/api/generate-image''" GenerateImage]
    registered_routes [of POST "''/api/compress-image''" CompressImage]
    registered_routes [of POST "''/api/health''" Health]
  by simp

text \<open>
  Claim C5 as it is worded fails on the health check: GET /api/health is registered,
  is neither of the two operations, and answers.
\<close>

theorem health_check_is_registered:
  "registered GET ''/api/health'' = Some Health
   \<and> Health \<noteq> GenerateImage \<and> Health \<noteq> CompressImage
   \<and> fst (serve (example_world None (Inr JNull) (Inr [])) GetHealth idle)
       = res_json 200 [(''status'', JStr (lit ''OK'')), (''message'', JStr (lit ''Server is running''))]"
  by (simp add: registered_def routes_def health_def)


end
